theory Spec2Isabelle
  imports
    Complex_Main
    "HOL-Library.Product_Lexorder"
    "HOL-Library.List_Lexorder"
    "HOL-Library.Char_ord"
begin

section \<open>Data model\<close>

text \<open>
  A parsed timestamp is a triple (year, month, day); the lexicographic order on
  triples is the chronological order. A cell of a float64 column is a
  \<open>real option\<close>: \<open>None\<close> is NaN (a missing value), and float arithmetic is
  idealised as arithmetic on the reals. A state code is a string, ordered as
  Python orders strings (by code point, lexicographically).
\<close>

type_synonym date = "int \<times> nat \<times> nat"
type_synonym val = "real option"

text \<open>A row of a national series file: columns \<open>date\<close> and one value column.\<close>

record obs =
  o_date :: date
  o_value :: val

text \<open>A row of a state-scoped series file: columns \<open>date\<close>, \<open>state\<close> and one value column.\<close>

record sobs =
  s_date :: date
  s_state :: string
  s_value :: val

datatype frame = National "obs list" | StateScoped "sobs list"

text \<open>
  A panel row. The five core columns are fields; every supplementary column
  that a left join adds is an entry (label, cell) of \<open>extras\<close>, in the order the
  joins ran.
\<close>

record prow =
  date :: date
  state :: string
  unemployment_rate :: val
  national_unemployment_rate :: val
  federal_funds_rate :: val
  extras :: "(string \<times> val) list"

datatype error = FileNotFoundError string | KeyError | ValueError

definition row_key :: "'a prow_scheme \<Rightarrow> date \<times> string" where
  "row_key r = (date r, state r)"

section \<open>Panel Assembler (merge_final_panel.py)\<close>

text \<open>
  \<open>Series.min()\<close> and \<open>Series.max()\<close> of a date column: NaT (\<open>None\<close>) on an empty
  column.
\<close>

fun date_min :: "date list \<Rightarrow> date option" where
  "date_min [] = None"
| "date_min (d # ds) = Some (fold min ds d)"

fun date_max :: "date list \<Rightarrow> date option" where
  "date_max [] = None"
| "date_max (d # ds) = Some (fold max ds d)"

text \<open>Comparisons of timestamps; every comparison with NaT is false.\<close>

definition ts_gt :: "date option \<Rightarrow> date option \<Rightarrow> bool" where
  "ts_gt a b = (case (a, b) of (Some x, Some y) \<Rightarrow> y < x | _ \<Rightarrow> False)"

definition ts_lt :: "date option \<Rightarrow> date option \<Rightarrow> bool" where
  "ts_lt a b = (case (a, b) of (Some x, Some y) \<Rightarrow> x < y | _ \<Rightarrow> False)"

definition ts_ge :: "date \<Rightarrow> date option \<Rightarrow> bool" where
  "ts_ge d b = (case b of Some y \<Rightarrow> y \<le> d | None \<Rightarrow> False)"

definition ts_le :: "date \<Rightarrow> date option \<Rightarrow> bool" where
  "ts_le d b = (case b of Some y \<Rightarrow> d \<le> y | None \<Rightarrow> False)"

text \<open>
  Python's builtin \<open>max(a, b, c)\<close> and \<open>min(a, b, c)\<close>: the first argument is
  kept until a later one compares strictly greater (smaller).
\<close>

definition py_max3 :: "date option \<Rightarrow> date option \<Rightarrow> date option \<Rightarrow> date option" where
  "py_max3 a b c =
     (let m = a;
          m = (if ts_gt b m then b else m);
          m = (if ts_gt c m then c else m)
      in m)"

definition py_min3 :: "date option \<Rightarrow> date option \<Rightarrow> date option \<Rightarrow> date option" where
  "py_min3 a b c =
     (let m = a;
          m = (if ts_lt b m then b else m);
          m = (if ts_lt c m then c else m)
      in m)"

definition common_start :: "sobs list \<Rightarrow> obs list \<Rightarrow> obs list \<Rightarrow> date option" where
  "common_start su ff nu =
     py_max3 (date_min (map s_date su)) (date_min (map o_date ff)) (date_min (map o_date nu))"

definition common_end :: "sobs list \<Rightarrow> obs list \<Rightarrow> obs list \<Rightarrow> date option" where
  "common_end su ff nu =
     py_min3 (date_max (map s_date su)) (date_max (map o_date ff)) (date_max (map o_date nu))"

text \<open>
  \<open>federal_funds_df.merge(national_unemployment_df, on='date', how='inner')\<close>:
  one row per pair of a left and a right row with the same date, in the order
  of the left rows. A row of the result is (date, federal funds rate, national
  unemployment rate).
\<close>

definition merge_national :: "obs list \<Rightarrow> obs list \<Rightarrow> (date \<times> val \<times> val) list" where
  "merge_national ff nu =
     concat (map (\<lambda>f. map (\<lambda>n. (o_date f, o_value f, o_value n))
                          (filter (\<lambda>n. o_date n = o_date f) nu)) ff)"

text \<open>
  \<open>state_unemployment_df.merge(national_data, on='date', how='inner')\<close>: the
  broadcast join.
\<close>

definition mk_row :: "sobs \<Rightarrow> date \<times> val \<times> val \<Rightarrow> prow" where
  "mk_row s n =
     \<lparr> date = s_date s, state = s_state s, unemployment_rate = s_value s,
       national_unemployment_rate = snd (snd n), federal_funds_rate = fst (snd n),
       extras = [] \<rparr>"

definition merge_state :: "sobs list \<Rightarrow> (date \<times> val \<times> val) list \<Rightarrow> prow list" where
  "merge_state su national_data =
     concat (map (\<lambda>s. map (mk_row s) (filter (\<lambda>n. fst n = s_date s) national_data)) su)"

definition in_range :: "date option \<Rightarrow> date option \<Rightarrow> 'a prow_scheme \<Rightarrow> bool" where
  "in_range lo hi r = (ts_ge (date r) lo \<and> ts_le (date r) hi)"

text \<open>
  \<open>create_state_panel\<close> of merge_final_panel.py. \<open>sort_values\<close> is modelled as a
  stable sort; no statement below depends on the order of rows with equal sort
  keys. The progress prints are left out: they format \<open>min().date()\<close> and
  \<open>max().date()\<close>, which is NaT on an empty column and does not raise.
\<close>

definition create_state_panel :: "sobs list \<Rightarrow> obs list \<Rightarrow> obs list \<Rightarrow> prow list" where
  "create_state_panel state_unemployment_df federal_funds_df national_unemployment_df =
     (let ff = sort_key o_date federal_funds_df;
          nu = sort_key o_date national_unemployment_df;
          su = sort_key s_date state_unemployment_df;
          lo = common_start su ff nu;
          hi = common_end su ff nu;
          national_data = merge_national ff nu;
          panel = merge_state su national_data;
          panel = filter (in_range lo hi) panel
      in sort_key row_key panel)"

text \<open>The bounds as the specification words them: max of the mins, min of the maxes.\<close>

definition spec_common_start :: "sobs list \<Rightarrow> obs list \<Rightarrow> obs list \<Rightarrow> date" where
  "spec_common_start su ff nu =
     Max {Min (s_date ` set su), Min (o_date ` set ff), Min (o_date ` set nu)}"

definition spec_common_end :: "sobs list \<Rightarrow> obs list \<Rightarrow> obs list \<Rightarrow> date" where
  "spec_common_end su ff nu =
     Min {Max (s_date ` set su), Max (o_date ` set ff), Max (o_date ` set nu)}"

section \<open>Enhanced Panel Assembler (merge_final_panel_enhanced.py)\<close>

text \<open>
  The dict \<open>data\<close>: keys with their tables, in insertion order. The raw data
  directory is a partial function from file names to parsed tables.
\<close>

type_synonym data = "(string \<times> frame) list"
type_synonym files = "string \<Rightarrow> frame option"

definition core_files :: "(string \<times> string) list" where
  "core_files =
     [(''federal_funds'', ''federal_funds_rate.csv''),
      (''national_unemployment'', ''national_unemployment_rate.csv''),
      (''state_unemployment'', ''state_unemployment_rates.csv'')]"

definition optional_files :: "(string \<times> string) list" where
  "optional_files =
     [(''inflation'', ''inflation_cpi.csv''),
      (''recession'', ''recession_indicator.csv''),
      (''treasury_10y'', ''treasury_10y_yield.csv''),
      (''employment_level'', ''state_employment_level.csv''),
      (''labor_force_level'', ''state_labor_force_level.csv''),
      (''private_employment'', ''state_private_employment.csv'')]"

text \<open>The loop over the core files: a missing file raises.\<close>

fun load_core :: "files \<Rightarrow> (string \<times> string) list \<Rightarrow> data \<Rightarrow> error + data" where
  "load_core fs [] d = Inr d"
| "load_core fs ((key, filename) # rest) d =
     (case fs filename of
        None \<Rightarrow> Inl (FileNotFoundError filename)
      | Some df \<Rightarrow> load_core fs rest (d @ [(key, df)]))"

text \<open>The loop over the optional files: a missing file is skipped.\<close>

fun load_optional :: "files \<Rightarrow> (string \<times> string) list \<Rightarrow> data \<Rightarrow> data" where
  "load_optional fs [] d = d"
| "load_optional fs ((key, filename) # rest) d =
     (case fs filename of
        None \<Rightarrow> load_optional fs rest d
      | Some df \<Rightarrow> load_optional fs rest (d @ [(key, df)]))"

definition load_raw_data_enhanced :: "files \<Rightarrow> error + data" where
  "load_raw_data_enhanced fs =
     (case load_core fs core_files [] of
        Inl e \<Rightarrow> Inl e
      | Inr d \<Rightarrow> Inr (load_optional fs optional_files d))"

text \<open>
  \<open>panel.merge(df_nat, on='date', how='left')\<close>: every panel row is kept, in
  order; it is repeated once per matching right row, and gets a null cell when
  nothing matches.
\<close>

definition add_cell :: "string \<Rightarrow> prow \<Rightarrow> val \<Rightarrow> prow" where
  "add_cell label r v = r\<lparr>extras := extras r @ [(label, v)]\<rparr>"

definition left_rows :: "string \<Rightarrow> prow \<Rightarrow> val list \<Rightarrow> prow list" where
  "left_rows label r vs = (if vs = [] then [add_cell label r None] else map (add_cell label r) vs)"

definition merge_left_date :: "string \<Rightarrow> prow list \<Rightarrow> obs list \<Rightarrow> prow list" where
  "merge_left_date label panel df =
     concat (map (\<lambda>r. left_rows label r
                          (map o_value (filter (\<lambda>x. o_date x = date r) df))) panel)"

text \<open>\<open>panel.merge(df_state, on=['date', 'state'], how='left')\<close>.\<close>

definition merge_left_date_state :: "string \<Rightarrow> prow list \<Rightarrow> sobs list \<Rightarrow> prow list" where
  "merge_left_date_state label panel df =
     concat (map (\<lambda>r. left_rows label r
                          (map s_value (filter (\<lambda>x. s_date x = date r \<and> s_state x = state r) df)))
                 panel)"

text \<open>
  One round of the loop over the national supplementary keys. A table with a
  \<open>state\<close> column under a national key leaves the panel with columns \<open>state_x\<close>
  and \<open>state_y\<close>, and the later \<open>sort_values(['date', 'state'])\<close> raises KeyError;
  the model raises at once.
\<close>

definition add_national :: "data \<Rightarrow> string \<Rightarrow> prow list \<Rightarrow> error + prow list" where
  "add_national d key panel =
     (case map_of d key of
        None \<Rightarrow> Inr panel
      | Some (National df) \<Rightarrow> Inr (merge_left_date key panel (sort_key o_date df))
      | Some (StateScoped df) \<Rightarrow> Inl KeyError)"

text \<open>
  One round of the loop over the state-level supplementary keys. A table with
  no \<open>state\<close> column raises KeyError in \<open>sort_values(['date', 'state'])\<close>.
\<close>

definition add_state :: "data \<Rightarrow> string \<Rightarrow> prow list \<Rightarrow> error + prow list" where
  "add_state d key panel =
     (case map_of d key of
        None \<Rightarrow> Inr panel
      | Some (StateScoped df) \<Rightarrow>
          Inr (merge_left_date_state key panel (sort_key (\<lambda>x. (s_date x, s_state x)) df))
      | Some (National df) \<Rightarrow> Inl KeyError)"

fun add_all :: "(string \<Rightarrow> prow list \<Rightarrow> error + prow list) \<Rightarrow> string list \<Rightarrow> prow list
                 \<Rightarrow> error + prow list" where
  "add_all step [] panel = Inr panel"
| "add_all step (key # keys) panel =
     (case step key panel of Inl e \<Rightarrow> Inl e | Inr p \<Rightarrow> add_all step keys p)"

definition national_keys :: "string list" where
  "national_keys = [''inflation'', ''recession'', ''treasury_10y'']"

definition state_keys :: "string list" where
  "state_keys = [''employment_level'', ''labor_force_level'', ''private_employment'']"

text \<open>\<open>create_state_panel\<close> of merge_final_panel_enhanced.py.\<close>

definition create_state_panel_enhanced ::
  "sobs list \<Rightarrow> obs list \<Rightarrow> obs list \<Rightarrow> data \<Rightarrow> error + prow list" where
  "create_state_panel_enhanced state_unemp federal_funds national_unemp d =
     (let ff = sort_key o_date federal_funds;
          nu = sort_key o_date national_unemp;
          su = sort_key s_date state_unemp;
          lo = common_start su ff nu;
          hi = common_end su ff nu;
          national_data = merge_national ff nu;
          panel = merge_state su national_data
      in case add_all (add_national d) national_keys panel of
           Inl e \<Rightarrow> Inl e
         | Inr panel \<Rightarrow>
             (case add_all (add_state d) state_keys panel of
                Inl e \<Rightarrow> Inl e
              | Inr panel \<Rightarrow> Inr (sort_key row_key (filter (in_range lo hi) panel))))"

text \<open>
  \<open>calculate_derived_variables\<close> of merge_final_panel_enhanced.py: a copy of
  the panel with the columns \<open>year\<close> and \<open>month\<close>.
\<close>

record erow = prow +
  year :: int
  month :: nat

definition month_of :: "date \<Rightarrow> nat" where
  "month_of d = fst (snd d)"

definition calculate_derived_variables_enhanced :: "prow list \<Rightarrow> erow list" where
  "calculate_derived_variables_enhanced panel =
     map (\<lambda>r. \<lparr> date = date r, state = state r, unemployment_rate = unemployment_rate r,
                 national_unemployment_rate = national_unemployment_rate r,
                 federal_funds_rate = federal_funds_rate r, extras = extras r,
                 year = fst (date r), month = month_of (date r) \<rparr>) panel"

section \<open>Derived-Variable Engine (add_supplementary_variables.py)\<close>

record drow = prow +
  unemployment_yoy_change :: val
  fed_rate_change :: val
  unemployment_lagged_1mo :: val
  fed_rate_lagged_1mo :: val
  unemployment_volatility_12mo :: val

text \<open>Float subtraction: NaN when either operand is NaN.\<close>

definition opt_sub :: "val \<Rightarrow> val \<Rightarrow> val" where
  "opt_sub a b = (case (a, b) of (Some x, Some y) \<Rightarrow> Some (x - y) | _ \<Rightarrow> None)"

text \<open>
  The rows of one group of \<open>panel.groupby('state')\<close>, in panel order, and the
  position of row \<open>i\<close> of the panel within its own group.
\<close>

definition group_rows :: "'a prow_scheme list \<Rightarrow> string \<Rightarrow> 'a prow_scheme list" where
  "group_rows panel s = filter (\<lambda>r. state r = s) panel"

definition group_pos :: "'a prow_scheme list \<Rightarrow> nat \<Rightarrow> nat" where
  "group_pos panel i = length (group_rows (take i panel) (state (panel ! i)))"

text \<open>
  \<open>panel.groupby('state')[col].shift(k)\<close> at row \<open>i\<close>: the cell \<open>k\<close> rows earlier
  within the group of row \<open>i\<close>, NaN when the group has fewer than \<open>k\<close> earlier
  rows. Used at \<open>i < length panel\<close> only.
\<close>

definition groupby_shift :: "nat \<Rightarrow> (prow \<Rightarrow> val) \<Rightarrow> prow list \<Rightarrow> nat \<Rightarrow> val" where
  "groupby_shift k col panel i =
     (let t = group_pos panel i
      in if k \<le> t then col (group_rows panel (state (panel ! i)) ! (t - k)) else None)"

text \<open>\<open>panel[col].shift(k)\<close> at row \<open>i\<close>: the cell \<open>k\<close> rows earlier in the panel.\<close>

definition shift :: "nat \<Rightarrow> (prow \<Rightarrow> val) \<Rightarrow> prow list \<Rightarrow> nat \<Rightarrow> val" where
  "shift k col panel i = (if k \<le> i then col (panel ! (i - k)) else None)"

text \<open>\<open>panel[col].diff()\<close> at row \<open>i\<close>.\<close>

definition diff :: "(prow \<Rightarrow> val) \<Rightarrow> prow list \<Rightarrow> nat \<Rightarrow> val" where
  "diff col panel i = opt_sub (col (panel ! i)) (shift 1 col panel i)"

text \<open>
  The standard deviation pandas computes (one delta degree of freedom): NaN
  for fewer than two observations.
\<close>

definition sample_std :: "real list \<Rightarrow> val" where
  "sample_std xs =
     (let n = length xs
      in if n < 2 then None
         else (let m = sum_list xs / real n
               in Some (sqrt (sum_list (map (\<lambda>x. (x - m)\<^sup>2) xs) / real (n - 1)))))"

text \<open>
  \<open>.rolling(window, min_periods).std()\<close> over one sequence of cells: at
  position \<open>t\<close> the window is the last \<open>window\<close> cells up to \<open>t\<close>; NaN cells are
  not observations.
\<close>

definition observed :: "val list \<Rightarrow> real list" where
  "observed w = map the (filter (\<lambda>v. v \<noteq> None) w)"

definition rolling_window :: "nat \<Rightarrow> val list \<Rightarrow> nat \<Rightarrow> val list" where
  "rolling_window window vs t = drop (Suc t - window) (take (Suc t) vs)"

definition rolling_std :: "nat \<Rightarrow> nat \<Rightarrow> val list \<Rightarrow> val list" where
  "rolling_std window min_periods vs =
     map (\<lambda>t. let xs = observed (rolling_window window vs t)
               in if length xs < min_periods then None else sample_std xs)
         [0..<length vs]"

text \<open>
  \<open>panel.groupby('state')[col].rolling(...).std()\<close>: the result is laid out
  group after group, the groups in the order of their sorted keys.
  \<open>reset_index(drop=True)\<close> then numbers these cells 0, 1, 2, ... in that
  layout.
\<close>

definition groupby_rolling_std :: "nat \<Rightarrow> nat \<Rightarrow> (prow \<Rightarrow> val) \<Rightarrow> prow list \<Rightarrow> val list" where
  "groupby_rolling_std window min_periods col panel =
     concat (map (\<lambda>s. rolling_std window min_periods (map col (group_rows panel s)))
                 (sort (remdups (map state panel))))"

text \<open>
  Assigning a series to a column aligns on the index: row \<open>i\<close> of the panel
  gets the cell numbered \<open>i\<close>, NaN when there is none.
\<close>

definition assign_by_index :: "val list \<Rightarrow> nat \<Rightarrow> val" where
  "assign_by_index cells i = (if i < length cells then cells ! i else None)"

definition derive_row :: "prow list \<Rightarrow> val list \<Rightarrow> nat \<Rightarrow> drow" where
  "derive_row panel vol i =
     (let r = panel ! i
      in \<lparr> date = date r, state = state r, unemployment_rate = unemployment_rate r,
           national_unemployment_rate = national_unemployment_rate r,
           federal_funds_rate = federal_funds_rate r, extras = extras r,
           unemployment_yoy_change =
             opt_sub (groupby_shift 1 unemployment_rate panel i)
                     (groupby_shift 13 unemployment_rate panel i),
           fed_rate_change = diff federal_funds_rate panel i,
           unemployment_lagged_1mo = groupby_shift 1 unemployment_rate panel i,
           fed_rate_lagged_1mo = shift 1 federal_funds_rate panel i,
           unemployment_volatility_12mo = assign_by_index vol i \<rparr>)"

definition calculate_derived_variables :: "prow list \<Rightarrow> drow list" where
  "calculate_derived_variables panel =
     (let vol = groupby_rolling_std 12 1 unemployment_rate panel
      in map (derive_row panel vol) [0..<length panel])"

text \<open>
  The lag and the trailing window as the specification words them, on one
  state's own sequence of rows.
\<close>

definition spec_lag :: "nat \<Rightarrow> ('a prow_scheme \<Rightarrow> val) \<Rightarrow> 'a prow_scheme list \<Rightarrow> nat \<Rightarrow> val" where
  "spec_lag k col g t = (if t < k then None else col (g ! (t - k)))"

section \<open>Frequency Harmonizer (merge_final_panel_enhanced.py)\<close>

definition frame_dates :: "frame \<Rightarrow> date list" where
  "frame_dates f = (case f of National df \<Rightarrow> map o_date df | StateScoped df \<Rightarrow> map s_date df)"

text \<open>\<open>df['date'].dt.month.nunique()\<close>.\<close>

definition nunique_months :: "frame \<Rightarrow> nat" where
  "nunique_months f = length (remdups (map month_of (frame_dates f)))"

text \<open>\<open>data[key] = df\<close>: an existing key keeps its place in the dict.\<close>

fun dict_set :: "data \<Rightarrow> string \<Rightarrow> frame \<Rightarrow> data" where
  "dict_set [] key df = [(key, df)]"
| "dict_set ((k, v) # rest) key df =
     (if k = key then (key, df) # rest else (k, v) # dict_set rest key df)"

text \<open>
  \<open>harmonize_frequencies\<close>. The pandas call chain
  \<open>df.set_index('date').asfreq('MS').interpolate(method='forward_fill')\<close> is the
  parameter \<open>reindex\<close>; it may raise.
\<close>

definition harmonize_frequencies :: "(frame \<Rightarrow> error + frame) \<Rightarrow> data \<Rightarrow> error + data" where
  "harmonize_frequencies reindex d =
     (case map_of d ''real_income'' of
        None \<Rightarrow> Inr d
      | Some df \<Rightarrow>
          if nunique_months df = 1
          then (case reindex df of
                  Inl e \<Rightarrow> Inl e
                | Inr df' \<Rightarrow> Inr (dict_set d ''real_income'' df'))
          else Inr d)"

text \<open>
  The harmonizer as the specification words it: a series whose dates all fall
  in the same calendar month is re-indexed to the month starts within its date
  range, each month carrying the last observation forward; any other series is
  unchanged. Each state of a state-scoped table is a series.
\<close>

definition month_index :: "date \<Rightarrow> int" where
  "month_index d = fst d * 12 + int (month_of d) - 1"

definition month_start :: "int \<Rightarrow> date" where
  "month_start k = (k div 12, nat (k mod 12) + 1, 1)"

definition monthly_grid :: "date \<Rightarrow> date \<Rightarrow> date list" where
  "monthly_grid lo hi =
     filter (\<lambda>g. lo \<le> g \<and> g \<le> hi) (map month_start [month_index lo..month_index hi])"

definition locf :: "obs list \<Rightarrow> date \<Rightarrow> val" where
  "locf df g =
     (case filter (\<lambda>x. o_date x \<le> g) (sort_key o_date df) of
        [] \<Rightarrow> None
      | x # xs \<Rightarrow> o_value (last (x # xs)))"

definition spec_annual :: "date list \<Rightarrow> bool" where
  "spec_annual ds = (length (remdups (map month_of ds)) = 1)"

definition spec_reindex :: "obs list \<Rightarrow> obs list" where
  "spec_reindex df =
     (case (date_min (map o_date df), date_max (map o_date df)) of
        (Some lo, Some hi) \<Rightarrow> map (\<lambda>g. \<lparr> o_date = g, o_value = locf df g \<rparr>) (monthly_grid lo hi)
      | _ \<Rightarrow> df)"

definition state_series :: "sobs list \<Rightarrow> string \<Rightarrow> obs list" where
  "state_series df s =
     map (\<lambda>x. \<lparr> o_date = s_date x, o_value = s_value x \<rparr>) (filter (\<lambda>x. s_state x = s) df)"

definition spec_harmonize_frame :: "frame \<Rightarrow> frame" where
  "spec_harmonize_frame f =
     (case f of
        National df \<Rightarrow>
          if spec_annual (map o_date df) then National (spec_reindex df) else f
      | StateScoped df \<Rightarrow>
          if spec_annual (map s_date df)
          then StateScoped
                 (concat (map (\<lambda>s. map (\<lambda>x. \<lparr> s_date = o_date x, s_state = s, s_value = o_value x \<rparr>)
                                        (spec_reindex (state_series df s)))
                              (remdups (map s_state df))))
          else f)"

definition spec_harmonize :: "data \<Rightarrow> data" where
  "spec_harmonize d = map (\<lambda>(key, f). (key, spec_harmonize_frame f)) d"

text \<open>The re-indexing step behaving as the specification describes it.\<close>

definition reindex_as_specified :: "frame \<Rightarrow> error + frame" where
  "reindex_as_specified f = Inr (spec_harmonize_frame f)"

section \<open>The main functions of the two mergers\<close>

text \<open>\<open>load_raw_data\<close> of merge_final_panel.py: the three core files.\<close>

definition load_raw_data :: "files \<Rightarrow> error + data" where
  "load_raw_data fs = load_core fs core_files []"

text \<open>
  \<open>main\<close> of merge_final_panel.py: the exit code it returns and the panel
  files it has written, in order. The quality report is the parameter
  \<open>report\<close> (\<open>Some e\<close> when it raises); it runs after both panel files are
  written. A table without the columns that \<open>create_state_panel\<close> selects
  raises KeyError there.
\<close>

definition main :: "(prow list \<Rightarrow> error option) \<Rightarrow> files \<Rightarrow> nat \<times> (string \<times> prow list) list" where
  "main report fs =
     (case load_raw_data fs of
        Inl e \<Rightarrow> (1, [])
      | Inr d \<Rightarrow>
          (case (map_of d ''state_unemployment'', map_of d ''federal_funds'',
                 map_of d ''national_unemployment'') of
             (Some (StateScoped su), Some (National ff), Some (National nu)) \<Rightarrow>
               (let panel = create_state_panel su ff nu;
                    written = [(''panel_processed.csv'', panel), (''analysis_panel.csv'', panel)]
                in case report panel of
                     Some e \<Rightarrow> (1, written)
                   | None \<Rightarrow> (0, written))
           | _ \<Rightarrow> (1, [])))"


section \<open>Fetch entry points (fetch_data.py, fetch_bls_data.py)\<close>

text \<open>
  The environment maps variable names to values. A call of \<open>main\<close> either
  returns (\<open>None\<close> or an integer) or leaves through \<open>sys.exit\<close>. Only the lines
  that the credential check prints are modelled as output.
\<close>

type_synonym env = "string \<Rightarrow> string option"

datatype py_result = Returned "nat option" | SysExit nat

definition fred_key_message :: "string list" where
  "fred_key_message =
     [''FRED API key not found. Please:'',
      ''  1. Get a free API key at: https://fred.stlouisfed.org/docs/api/api_key.html'',
      ''  2. Set environment variable: export FRED_API_KEY=YOUR_KEY'',
      ''  3. Or pass as argument: python fetch_data.py --api-key YOUR_KEY'']"

text \<open>\<open>not api_key\<close>: the variable is unset or empty.\<close>

definition falsy :: "string option \<Rightarrow> bool" where
  "falsy k = (case k of None \<Rightarrow> True | Some v \<Rightarrow> v = [])"

definition get_fred_api_key :: "env \<Rightarrow> error + string" where
  "get_fred_api_key e =
     (let api_key = e ''FRED_API_KEY''
      in if falsy api_key then Inl ValueError else Inr (the api_key))"

text \<open>
  \<open>main\<close> of fetch_data.py. \<open>fetch_all\<close> is everything after the credential
  check: it returns 0, or 1 when a fetch raises.
\<close>

definition fetch_data_main :: "(string \<Rightarrow> nat) \<Rightarrow> string option \<Rightarrow> env \<Rightarrow> py_result \<times> string list" where
  "fetch_data_main fetch_all cli_api_key e =
     (case (if falsy cli_api_key then get_fred_api_key e else Inr (the cli_api_key)) of
        Inl err \<Rightarrow> (SysExit 1, (''ERROR: '' @ hd fred_key_message) # tl fred_key_message)
      | Inr api_key \<Rightarrow> (Returned (Some (fetch_all api_key)), []))"

text \<open>\<open>main\<close> of fetch_bls_data.py; the fetch loop returns nothing.\<close>

definition fetch_bls_main :: "env \<Rightarrow> py_result \<times> string list" where
  "fetch_bls_main e =
     (let api_key = e ''BLS_API_KEY''
      in if falsy api_key
         then (Returned (Some 1),
               [''ERROR: BLS_API_KEY environment variable not set!'',
                ''Please set it with: export BLS_API_KEY=your_key_here'',
                ''Or add it to your .env file''])
         else (Returned None, []))"

text \<open>
  The exit code of the process: fetch_data.py ends with \<open>sys.exit(main())\<close>,
  fetch_bls_data.py with a bare \<open>main()\<close>.
\<close>

definition sys_exit_main :: "py_result \<Rightarrow> nat" where
  "sys_exit_main r = (case r of SysExit n \<Rightarrow> n | Returned None \<Rightarrow> 0 | Returned (Some n) \<Rightarrow> n)"

definition bare_main :: "py_result \<Rightarrow> nat" where
  "bare_main r = (case r of SysExit n \<Rightarrow> n | Returned v \<Rightarrow> 0)"

definition fetch_data_script :: "(string \<Rightarrow> nat) \<Rightarrow> string option \<Rightarrow> env \<Rightarrow> nat \<times> string list" where
  "fetch_data_script fetch_all cli_api_key e =
     (let r = fetch_data_main fetch_all cli_api_key e in (sys_exit_main (fst r), snd r))"

definition fetch_bls_script :: "env \<Rightarrow> nat \<times> string list" where
  "fetch_bls_script e = (let r = fetch_bls_main e in (bare_main (fst r), snd r))"

definition empty_env :: env where
  "empty_env = (\<lambda>name. None)"

section \<open>Example inputs\<close>

definition core_row :: "date \<Rightarrow> string \<Rightarrow> real \<Rightarrow> real \<Rightarrow> real \<Rightarrow> prow" where
  "core_row d s u n f =
     \<lparr> date = d, state = s, unemployment_rate = Some u, national_unemployment_rate = Some n,
       federal_funds_rate = Some f, extras = [] \<rparr>"

text \<open>
  A panel of two states over two months, in the order the assembler emits
  (by date, then state). The federal funds rate is 5 in January and 6 in
  February.
\<close>

definition two_state_panel :: "prow list" where
  "two_state_panel =
     [core_row (2000, 1, 1) ''AL'' 1 4 5, core_row (2000, 1, 1) ''TX'' 5 4 5,
      core_row (2000, 2, 1) ''AL'' 3 4 6, core_row (2000, 2, 1) ''TX'' 5 4 6]"

text \<open>
  Fourteen months of AL (unemployment rate 1, 2, ..., 13, then 20), with two
  rows of TX in between, ordered by date, then state. At the last row of AL
  lag(1) - lag(13) is 13 - 1 = 12, and value - lag(12) would be 20 - 2 = 18.
\<close>

definition fourteen_month_panel :: "prow list" where
  "fourteen_month_panel =
     [core_row (2000, 1, 1) ''AL'' 1 4 5, core_row (2000, 1, 1) ''TX'' 7 4 5,
      core_row (2000, 2, 1) ''AL'' 2 4 5, core_row (2000, 3, 1) ''AL'' 3 4 5,
      core_row (2000, 4, 1) ''AL'' 4 4 5, core_row (2000, 5, 1) ''AL'' 5 4 5,
      core_row (2000, 6, 1) ''AL'' 6 4 5, core_row (2000, 7, 1) ''AL'' 7 4 5,
      core_row (2000, 8, 1) ''AL'' 8 4 5, core_row (2000, 9, 1) ''AL'' 9 4 5,
      core_row (2000, 10, 1) ''AL'' 10 4 5, core_row (2000, 11, 1) ''AL'' 11 4 5,
      core_row (2000, 12, 1) ''AL'' 12 4 5, core_row (2001, 1, 1) ''AL'' 13 4 5,
      core_row (2001, 2, 1) ''AL'' 20 4 5, core_row (2001, 2, 1) ''TX'' 8 4 5]"

section \<open>Uniqueness of input keys\<close>

text \<open>
  At most one row per date in a national table, at most one row per (date,
  state) in a state-scoped table.
\<close>

definition unique_dates :: "obs list \<Rightarrow> bool" where
  "unique_dates df = distinct (map o_date df)"

definition unique_date_state :: "sobs list \<Rightarrow> bool" where
  "unique_date_state df = distinct (map (\<lambda>x. (s_date x, s_state x)) df)"

definition frame_unique :: "frame \<Rightarrow> bool" where
  "frame_unique f = (case f of National df \<Rightarrow> unique_dates df | StateScoped df \<Rightarrow> unique_date_state df)"

text \<open>Every optional table that the dict holds has unique keys.\<close>

definition optional_unique :: "data \<Rightarrow> bool" where
  "optional_unique d =
     list_all (\<lambda>key. case map_of d key of None \<Rightarrow> True | Some f \<Rightarrow> frame_unique f)
              (national_keys @ state_keys)"

text \<open>
  Raw series whose assembled panel is \<open>two_state_panel\<close>: state unemployment
  from 2000-01 to 2000-03, federal funds from 2000-01 to 2000-02, national
  unemployment from 1999-12 to 2000-02; the common range is 2000-01 to
  2000-02.
\<close>

definition mk_obs :: "date \<Rightarrow> real \<Rightarrow> obs" where
  "mk_obs d v = \<lparr> o_date = d, o_value = Some v \<rparr>"

definition mk_sobs :: "date \<Rightarrow> string \<Rightarrow> real \<Rightarrow> sobs" where
  "mk_sobs d s v = \<lparr> s_date = d, s_state = s, s_value = Some v \<rparr>"

definition ex_state_unemployment :: "sobs list" where
  "ex_state_unemployment =
     [mk_sobs (2000, 1, 1) ''AL'' 1, mk_sobs (2000, 1, 1) ''TX'' 5,
      mk_sobs (2000, 2, 1) ''AL'' 3, mk_sobs (2000, 2, 1) ''TX'' 5,
      mk_sobs (2000, 3, 1) ''AL'' 2]"

definition ex_federal_funds :: "obs list" where
  "ex_federal_funds = [mk_obs (2000, 1, 1) 5, mk_obs (2000, 2, 1) 6]"

definition ex_national_unemployment :: "obs list" where
  "ex_national_unemployment =
     [mk_obs (1999, 12, 1) 4, mk_obs (2000, 1, 1) 4, mk_obs (2000, 2, 1) 4]"

text \<open>
  A dict with two optional tables: the recession indicator for 2000-01 only,
  the employment level for TX in 2000-02 only.
\<close>

definition ex_data :: data where
  "ex_data =
     [(''recession'', National [mk_obs (2000, 1, 1) 0]),
      (''employment_level'', StateScoped [mk_sobs (2000, 2, 1) ''TX'' 100])]"

definition ex_enhanced_panel :: "prow list" where
  "ex_enhanced_panel =
     [(core_row (2000, 1, 1) ''AL'' 1 4 5)
        \<lparr>extras := [(''recession'', Some 0), (''employment_level'', None)]\<rparr>,
      (core_row (2000, 1, 1) ''TX'' 5 4 5)
        \<lparr>extras := [(''recession'', Some 0), (''employment_level'', None)]\<rparr>,
      (core_row (2000, 2, 1) ''AL'' 3 4 6)
        \<lparr>extras := [(''recession'', None), (''employment_level'', None)]\<rparr>,
      (core_row (2000, 2, 1) ''TX'' 5 4 6)
        \<lparr>extras := [(''recession'', None), (''employment_level'', Some 100)]\<rparr>]"

text \<open>A raw data directory that holds the three core files and no optional file.\<close>

definition ex_core_only :: files where
  "ex_core_only =
     map_of [(''federal_funds_rate.csv'', National ex_federal_funds),
             (''national_unemployment_rate.csv'', National ex_national_unemployment),
             (''state_unemployment_rates.csv'', StateScoped ex_state_unemployment)]"

text \<open>
  Required series without a common date: federal funds and state unemployment
  for 2000-01 only, national unemployment for 2001-01 only.
\<close>

definition zero_overlap_files :: files where
  "zero_overlap_files =
     map_of [(''federal_funds_rate.csv'', National [mk_obs (2000, 1, 1) 5]),
             (''national_unemployment_rate.csv'', National [mk_obs (2001, 1, 1) 4]),
             (''state_unemployment_rates.csv'', StateScoped [mk_sobs (2000, 1, 1) ''AL'' 1])]"

text \<open>The two ways the quality report can end.\<close>

definition report_returns :: "prow list \<Rightarrow> error option" where
  "report_returns panel = None"

definition report_raises :: "prow list \<Rightarrow> error option" where
  "report_raises panel = Some ValueError"

text \<open>
  An annual series under the key \<open>inflation\<close> (January 2000 and January 2001),
  and a monthly series under the key \<open>real_income\<close>.
\<close>

definition ex_annual_data :: data where
  "ex_annual_data = [(''inflation'', National [mk_obs (2000, 1, 1) 1, mk_obs (2001, 1, 1) 2])]"

definition ex_monthly_income :: data where
  "ex_monthly_income =
     [(''real_income'', National [mk_obs (2000, 1, 1) 1, mk_obs (2000, 2, 1) 2])]"







section \<open>Lemmas on the date range\<close>

lemma date_min_Min: "ds \<noteq> [] \<Longrightarrow> date_min ds = Some (Min (set ds))"
proof (cases ds)
  case (Cons d rest)
  then show ?thesis using Min.set_eq_fold [of d rest] by simp
qed simp

lemma date_max_Max: "ds \<noteq> [] \<Longrightarrow> date_max ds = Some (Max (set ds))"
proof (cases ds)
  case (Cons d rest)
  then show ?thesis using Max.set_eq_fold [of d rest] by simp
qed simp

lemma py_max3_Some: "py_max3 (Some a) (Some b) (Some c) = Some (Max {a, b, c})"
  by (auto simp: py_max3_def ts_gt_def Let_def max_def)

lemma py_min3_Some: "py_min3 (Some a) (Some b) (Some c) = Some (Min {a, b, c})"
  by (auto simp: py_min3_def ts_lt_def Let_def min_def)

lemma common_start_spec:
  assumes "su \<noteq> []" "ff \<noteq> []" "nu \<noteq> []"
  shows "common_start su ff nu = Some (spec_common_start su ff nu)"
  using assms
  by (simp add: common_start_def spec_common_start_def date_min_Min py_max3_Some)

lemma common_end_spec:
  assumes "su \<noteq> []" "ff \<noteq> []" "nu \<noteq> []"
  shows "common_end su ff nu = Some (spec_common_end su ff nu)"
  using assms
  by (simp add: common_end_def spec_common_end_def date_max_Max py_min3_Some)

lemma merge_national_nonempty: "merge_national ff nu \<noteq> [] \<Longrightarrow> ff \<noteq> [] \<and> nu \<noteq> []"
  by (auto simp: merge_national_def)

lemma merge_state_nonempty: "merge_state su nd \<noteq> [] \<Longrightarrow> su \<noteq> [] \<and> nd \<noteq> []"
  by (auto simp: merge_state_def)

section \<open>Lemmas on joins and keys\<close>

lemma filter_key_le1: "distinct (map f xs) \<Longrightarrow> length (filter (\<lambda>x. f x = a) xs) \<le> Suc 0"
proof (induction xs)
  case Nil
  then show ?case by simp
next
  case (Cons x xs)
  show ?case
  proof (cases "f x = a")
    case True
    from Cons.prems have "f x \<notin> f ` set xs" by simp
    with True have "\<forall>y\<in>set xs. f y \<noteq> a" by blast
    then have "filter (\<lambda>x. f x = a) xs = []"
      by (simp add: filter_empty_conv)
    with True show ?thesis by simp
  next
    case False
    with Cons show ?thesis by simp
  qed
qed

lemma distinct_join:
  assumes "distinct (map kl ls)"
    and "\<And>l. l \<in> set ls \<Longrightarrow> distinct (map k (F l))"
    and "\<And>l x. l \<in> set ls \<Longrightarrow> x \<in> set (F l) \<Longrightarrow> k x = kl l"
  shows "distinct (map k (concat (map F ls)))"
  using assms
proof (induction ls)
  case Nil
  then show ?case by simp
next
  case (Cons l ls)
  have rest: "distinct (map k (concat (map F ls)))"
    using Cons by simp
  have here: "distinct (map k (F l))"
    using Cons.prems(2) by simp
  have "k ` set (F l) \<inter> k ` set (concat (map F ls)) = {}"
  proof (rule ccontr)
    assume "k ` set (F l) \<inter> k ` set (concat (map F ls)) \<noteq> {}"
    then obtain x y where x: "x \<in> set (F l)" and y: "y \<in> set (concat (map F ls))"
      and xy: "k x = k y" by auto
    from y obtain l' where l': "l' \<in> set ls" "y \<in> set (F l')" by auto
    have "k x = kl l" using Cons.prems(3) x by simp
    moreover have "k y = kl l'" using Cons.prems(3) l' by simp
    ultimately have "kl l = kl l'" using xy by simp
    with l'(1) Cons.prems(1) show False by auto
  qed
  with rest here show ?case by simp
qed

lemma distinct_map_sort_key: "distinct (map g (sort_key f xs)) = distinct (map g xs)"
  by (simp add: distinct_map)

lemma distinct_map_filter_list: "distinct (map g xs) \<Longrightarrow> distinct (map g (filter P xs))"
  by (simp add: distinct_map_filter)

lemma distinct_merge_national:
  assumes "distinct (map o_date ff)" and "distinct (map o_date nu)"
  shows "distinct (map fst (merge_national ff nu))"
  unfolding merge_national_def
proof (rule distinct_join [where kl = o_date])
  show "distinct (map o_date ff)" by fact
next
  fix l
  have "length (filter (\<lambda>n. o_date n = o_date l) nu) \<le> Suc 0"
    using assms(2) by (rule filter_key_le1)
  then show "distinct (map fst (map (\<lambda>n. (o_date l, o_value l, o_value n))
                                    (filter (\<lambda>n. o_date n = o_date l) nu)))"
    by (cases "filter (\<lambda>n. o_date n = o_date l) nu") auto
next
  fix l x
  assume "x \<in> set (map (\<lambda>n. (o_date l, o_value l, o_value n))
                        (filter (\<lambda>n. o_date n = o_date l) nu))"
  then show "fst x = o_date l" by auto
qed

lemma row_key_mk_row: "row_key (mk_row s n) = (s_date s, s_state s)"
  by (simp add: row_key_def mk_row_def)

lemma distinct_merge_state:
  assumes "distinct (map (\<lambda>x. (s_date x, s_state x)) su)" and "distinct (map fst nd)"
  shows "distinct (map row_key (merge_state su nd))"
  unfolding merge_state_def
proof (rule distinct_join [where kl = "\<lambda>x. (s_date x, s_state x)"])
  show "distinct (map (\<lambda>x. (s_date x, s_state x)) su)" by fact
next
  fix l :: sobs
  have "length (filter (\<lambda>n. fst n = s_date l) nd) \<le> Suc 0"
    using assms(2) by (rule filter_key_le1)
  then show "distinct (map row_key (map (mk_row l) (filter (\<lambda>n. fst n = s_date l) nd)))"
    by (cases "filter (\<lambda>n. fst n = s_date l) nd") auto
next
  fix l :: sobs and x
  assume "x \<in> set (map (mk_row l) (filter (\<lambda>n. fst n = s_date l) nd))"
  then show "row_key x = (s_date l, s_state l)" by (auto simp: row_key_mk_row)
qed

lemma row_key_add_cell: "row_key (add_cell label r v) = row_key r"
  by (simp add: row_key_def add_cell_def)

lemma left_rows_keys: "row_key ` set (left_rows label r vs) = {row_key r}"
  by (cases vs) (auto simp: left_rows_def row_key_add_cell)

lemma left_rows_single:
  "length vs \<le> Suc 0 \<Longrightarrow> map row_key (left_rows label r vs) = [row_key r]"
  by (cases vs) (auto simp: left_rows_def row_key_add_cell)


lemma merge_left_date_keys_set:
  "row_key ` set (merge_left_date label panel df) = row_key ` set panel"
  by (induction panel) (simp_all add: merge_left_date_def image_Un left_rows_keys)

lemma merge_left_date_state_keys_set:
  "row_key ` set (merge_left_date_state label panel df) = row_key ` set panel"
  by (induction panel) (simp_all add: merge_left_date_state_def image_Un left_rows_keys)

lemma merge_left_date_keys:
  assumes "distinct (map o_date df)"
  shows "map row_key (merge_left_date label panel df) = map row_key panel"
proof (induction panel)
  case Nil
  then show ?case by (simp add: merge_left_date_def)
next
  case (Cons r panel)
  have "length (map o_value (filter (\<lambda>x. o_date x = date r) df)) \<le> Suc 0"
    using filter_key_le1 [OF assms, of "date r"] by simp
  then have "map row_key (left_rows label r (map o_value (filter (\<lambda>x. o_date x = date r) df)))
               = [row_key r]"
    by (rule left_rows_single)
  with Cons show ?case by (simp add: merge_left_date_def)
qed

lemma merge_left_date_state_keys:
  assumes "distinct (map (\<lambda>x. (s_date x, s_state x)) df)"
  shows "map row_key (merge_left_date_state label panel df) = map row_key panel"
proof (induction panel)
  case Nil
  then show ?case by (simp add: merge_left_date_state_def)
next
  case (Cons r panel)
  have "length (filter (\<lambda>x. (s_date x, s_state x) = (date r, state r)) df) \<le> Suc 0"
    using assms by (rule filter_key_le1)
  then have "length (map s_value (filter (\<lambda>x. s_date x = date r \<and> s_state x = state r) df))
               \<le> Suc 0"
    by simp
  then have "map row_key (left_rows label r
               (map s_value (filter (\<lambda>x. s_date x = date r \<and> s_state x = state r) df)))
               = [row_key r]"
    by (rule left_rows_single)
  with Cons show ?case by (simp add: merge_left_date_state_def)
qed

section \<open>The derived columns, row by row\<close>

lemma derive_row_cols:
  "unemployment_yoy_change (derive_row panel vol i) =
     opt_sub (groupby_shift 1 unemployment_rate panel i)
             (groupby_shift 13 unemployment_rate panel i)"
  "fed_rate_change (derive_row panel vol i) = diff federal_funds_rate panel i"
  "unemployment_lagged_1mo (derive_row panel vol i) = groupby_shift 1 unemployment_rate panel i"
  "fed_rate_lagged_1mo (derive_row panel vol i) = shift 1 federal_funds_rate panel i"
  "unemployment_volatility_12mo (derive_row panel vol i) = assign_by_index vol i"
  "date (derive_row panel vol i) = date (panel ! i)"
  "state (derive_row panel vol i) = state (panel ! i)"
  "unemployment_rate (derive_row panel vol i) = unemployment_rate (panel ! i)"
  "federal_funds_rate (derive_row panel vol i) = federal_funds_rate (panel ! i)"
  by (simp_all add: derive_row_def Let_def)

lemma two_state_rolling:
  "groupby_rolling_std 12 1 unemployment_rate two_state_panel
     = [None, Some (sqrt 2), None, Some 0]"
  by (simp add: groupby_rolling_std_def two_state_panel_def core_row_def group_rows_def
      rolling_std_def rolling_window_def observed_def sample_std_def upt_rec)

section \<open>Claims on the Derived-Variable Engine\<close>

text \<open>
  C1. The claim: every lag column is grouped by state, so that the lag at
  position t of a state's rows is the source value at position t - 1 of the
  same state, and each state's first row is null. On the two-state panel the
  column \<open>fed_rate_lagged_1mo\<close> is a shift over the whole panel: the rows of
  TX hold 5 and 6, the federal funds rate of the row just above (same month,
  other state), where the grouped lag is null and 5. The column
  \<open>unemployment_lagged_1mo\<close> of the same rows is the grouped lag.
\<close>

theorem fed_rate_lag_not_grouped:
  "map fed_rate_lagged_1mo (group_rows (calculate_derived_variables two_state_panel) ''TX'')
     = [Some 5, Some 6]
   \<and> map (spec_lag 1 federal_funds_rate
            (group_rows (calculate_derived_variables two_state_panel) ''TX'')) [0, 1]
     = [None, Some 5]
   \<and> map unemployment_lagged_1mo
        (group_rows (calculate_derived_variables two_state_panel) ''TX'')
     = map (spec_lag 1 unemployment_rate
             (group_rows (calculate_derived_variables two_state_panel) ''TX'')) [0, 1]"
  by (simp add: calculate_derived_variables_def two_state_panel_def core_row_def
      derive_row_cols Let_def shift_def groupby_shift_def group_pos_def group_rows_def
      spec_lag_def upt_rec)

text \<open>
  C2. The claim: on every row, \<open>fed_rate_change\<close> is the federal funds rate of
  the row's month minus that of the preceding month. On the two-state panel
  the rate rises from 5 to 6, and the column is the difference to the row just
  above: 1 on the first February row only, 0 on the second rows of both
  months.
\<close>

theorem fed_rate_change_row_to_row:
  "map fed_rate_change (calculate_derived_variables two_state_panel)
     = [None, Some 0, Some 1, Some 0]"
  by (simp add: calculate_derived_variables_def two_state_panel_def core_row_def
      derive_row_cols Let_def shift_def diff_def opt_sub_def upt_rec)

text \<open>
  C3. The claim: on every row, \<open>unemployment_volatility_12mo\<close> is the standard
  deviation of the state's own trailing window, and it is never null. On the
  two-state panel the rolling result is laid out state after state and
  assigned by position to a panel ordered by date: the rows of AL get null
  and null, where the rolling standard deviation of AL's own rates is null
  and \<open>sqrt 2\<close>; the first row of TX gets \<open>sqrt 2\<close>, the value of AL's window.
\<close>

theorem volatility_misaligned:
  "map unemployment_volatility_12mo
       (group_rows (calculate_derived_variables two_state_panel) ''AL'') = [None, None]
   \<and> rolling_std 12 1 (map unemployment_rate (group_rows two_state_panel ''AL''))
       = [None, Some (sqrt 2)]
   \<and> map unemployment_volatility_12mo
       (group_rows (calculate_derived_variables two_state_panel) ''TX'') = [Some (sqrt 2), Some 0]"
proof -
  have cols: "map unemployment_volatility_12mo (calculate_derived_variables two_state_panel)
                = [None, Some (sqrt 2), None, Some 0]"
    unfolding calculate_derived_variables_def Let_def two_state_rolling
    by (simp add: derive_row_cols assign_by_index_def upt_rec two_state_panel_def)
  have states: "map state (calculate_derived_variables two_state_panel)
                = [''AL'', ''TX'', ''AL'', ''TX'']"
    by (simp add: calculate_derived_variables_def Let_def derive_row_cols upt_rec
        two_state_panel_def core_row_def)
  obtain a b c d where rows: "calculate_derived_variables two_state_panel = [a, b, c, d]"
    using states by (auto simp: map_eq_Cons_conv)
  have own: "rolling_std 12 1 (map unemployment_rate (group_rows two_state_panel ''AL''))
               = [None, Some (sqrt 2)]"
    by (simp add: two_state_panel_def core_row_def group_rows_def rolling_std_def
        rolling_window_def observed_def sample_std_def upt_rec)
  from cols states own show ?thesis
    unfolding rows by (simp add: group_rows_def)
qed

section \<open>Claims on the fetch entry points\<close>

text \<open>
  C10. The claim: every fetch entry point ends with a non-zero exit code when
  its credential variable is unset. With an empty environment and no
  command-line key, fetch_data.py exits with code 1, and fetch_bls_data.py
  prints its error, returns 1 from \<open>main\<close> and exits with code 0, since the
  return value of \<open>main\<close> is dropped.
\<close>

theorem fetch_bls_exits_zero:
  "fetch_bls_main empty_env
     = (Returned (Some 1),
        [''ERROR: BLS_API_KEY environment variable not set!'',
         ''Please set it with: export BLS_API_KEY=your_key_here'',
         ''Or add it to your .env file''])
   \<and> fst (fetch_bls_script empty_env) = 0
   \<and> fst (fetch_data_script fetch_all None empty_env) = 1"
  by (simp add: fetch_bls_script_def fetch_bls_main_def empty_env_def falsy_def bare_main_def
      fetch_data_script_def fetch_data_main_def get_fred_api_key_def sys_exit_main_def)

section \<open>Lemmas on grouped shifts\<close>

lemma take_as_map: "i \<le> length xs \<Longrightarrow> take i xs = map ((!) xs) [0..<i]"
  by (simp add: list_eq_iff_nth_eq)

lemma group_rows_map: "group_rows (map F js) s = map F (filter (\<lambda>i. state (F i) = s) js)"
  by (simp add: group_rows_def filter_map comp_def)

lemma group_rows_index:
  "group_rows panel s = map ((!) panel) (filter (\<lambda>i. state (panel ! i) = s) [0..<length panel])"
  using group_rows_map [of "(!) panel" "[0..<length panel]" s] by (simp add: map_nth)

lemma filter_upt_count:
  "t < length (filter Q [0..<n]) \<Longrightarrow> length (filter Q [0..<filter Q [0..<n] ! t]) = t"
proof (induction n)
  case 0
  then show ?case by simp
next
  case (Suc n)
  show ?case
  proof (cases "t < length (filter Q [0..<n])")
    case True
    then have "filter Q [0..<Suc n] ! t = filter Q [0..<n] ! t"
      by (simp add: nth_append)
    with Suc.IH True show ?thesis by simp
  next
    case False
    with Suc.prems have q: "Q n" and t: "t = length (filter Q [0..<n])"
      by (auto split: if_splits)
    then have "filter Q [0..<Suc n] ! t = n" by simp
    with t show ?thesis by simp
  qed
qed

lemma filter_upt_nth:
  assumes "t < length (filter Q [0..<n])"
  shows "filter Q [0..<n] ! t < n" and "Q (filter Q [0..<n] ! t)"
proof -
  have "filter Q [0..<n] ! t \<in> set (filter Q [0..<n])"
    using assms by (rule nth_mem)
  then show "filter Q [0..<n] ! t < n" and "Q (filter Q [0..<n] ! t)" by auto
qed

lemma group_pos_index:
  assumes "t < length (filter (\<lambda>i. state (panel ! i) = s) [0..<length panel])"
  shows "group_pos panel (filter (\<lambda>i. state (panel ! i) = s) [0..<length panel] ! t) = t"
proof -
  let ?Q = "\<lambda>i. state (panel ! i) = s"
  let ?i = "filter ?Q [0..<length panel] ! t"
  have i: "?i < length panel" and s: "state (panel ! ?i) = s"
    using filter_upt_nth [of t ?Q "length panel"] assms by auto
  have "group_rows (take ?i panel) s = map ((!) panel) (filter ?Q [0..<?i])"
    using i by (simp add: take_as_map group_rows_map)
  then have "group_pos panel ?i = length (filter ?Q [0..<?i])"
    by (simp add: group_pos_def s)
  also have "\<dots> = t" using assms by (rule filter_upt_count)
  finally show ?thesis .
qed

lemma groupby_shift_index:
  assumes "t < length (filter (\<lambda>i. state (panel ! i) = s) [0..<length panel])"
  shows "groupby_shift k col panel (filter (\<lambda>i. state (panel ! i) = s) [0..<length panel] ! t)
           = spec_lag k col (group_rows panel s) t"
proof -
  let ?Q = "\<lambda>i. state (panel ! i) = s"
  let ?i = "filter ?Q [0..<length panel] ! t"
  have s: "state (panel ! ?i) = s"
    using filter_upt_nth [of t ?Q "length panel"] assms by auto
  show ?thesis
    by (simp add: groupby_shift_def Let_def group_pos_index [OF assms] s spec_lag_def)
qed

lemma derived_group_rows:
  "group_rows (calculate_derived_variables panel) s
     = map (derive_row panel (groupby_rolling_std 12 1 unemployment_rate panel))
           (filter (\<lambda>i. state (panel ! i) = s) [0..<length panel])"
  by (simp add: calculate_derived_variables_def Let_def group_rows_map derive_row_cols)

lemma derived_group_col:
  assumes "\<And>vol i. col' (derive_row panel vol i) = col (panel ! i)"
  shows "map col' (group_rows (calculate_derived_variables panel) s)
           = map col (group_rows panel s)"
proof -
  have "map col (group_rows panel s)
          = map (\<lambda>i. col (panel ! i)) (filter (\<lambda>i. state (panel ! i) = s) [0..<length panel])"
    by (subst group_rows_index) (simp add: comp_def)
  moreover have "map col' (group_rows (calculate_derived_variables panel) s)
          = map (\<lambda>i. col (panel ! i)) (filter (\<lambda>i. state (panel ! i) = s) [0..<length panel])"
    by (simp add: derived_group_rows assms comp_def)
  ultimately show ?thesis by simp
qed

lemma spec_lag_cong:
  assumes "map col' g' = map col g" and "t < length g"
  shows "spec_lag k col' g' t = spec_lag k col g t"
proof -
  have len: "length g' = length g" using assms(1) by (metis length_map)
  have "col' (g' ! j) = col (g ! j)" if "j < length g" for j
    using assms(1) that len by (metis nth_map)
  then show ?thesis using assms(2) by (simp add: spec_lag_def)
qed

lemma fst_le_of_pair_le: "((a::'a::linorder), (b::'b::linorder)) \<le> (c, d) \<Longrightarrow> a \<le> c"
  by (auto simp: less_eq_prod_def)

lemma sorted_keys_dates: "sorted (map row_key panel) \<Longrightarrow> sorted (map date panel)"
proof -
  assume "sorted (map row_key panel)"
  then have "sorted_wrt (\<lambda>a b. row_key a \<le> row_key b) panel" by (simp add: sorted_map)
  then have "sorted_wrt (\<lambda>a b. date a \<le> date b) panel"
    by (rule sorted_wrt_mono_rel [rotated]) (auto simp: row_key_def dest: fst_le_of_pair_le)
  then show ?thesis by (simp add: sorted_map)
qed

text \<open>
  The grouped one-month lag of the unemployment rate: at position t of a
  state's rows it is the rate at position t - 1 of the same state, and null at
  the state's first row.
\<close>

lemma unemployment_lag_grouped:
  assumes "t < length (group_rows (calculate_derived_variables panel) s)"
  shows "unemployment_lagged_1mo (group_rows (calculate_derived_variables panel) s ! t)
           = spec_lag 1 unemployment_rate (group_rows (calculate_derived_variables panel) s) t"
proof -
  let ?I = "filter (\<lambda>i. state (panel ! i) = s) [0..<length panel]"
  let ?g = "group_rows (calculate_derived_variables panel) s"
  have t: "t < length ?I" using assms by (simp add: derived_group_rows)
  have urs: "map unemployment_rate ?g = map unemployment_rate (group_rows panel s)"
    by (rule derived_group_col) (simp add: derive_row_cols)
  have tg: "t < length (group_rows panel s)" using t by (simp add: group_rows_index)
  have "unemployment_lagged_1mo (?g ! t) = groupby_shift 1 unemployment_rate panel (?I ! t)"
    using t by (simp add: derived_group_rows derive_row_cols)
  also have "\<dots> = spec_lag 1 unemployment_rate (group_rows panel s) t"
    by (simp add: groupby_shift_index [OF t])
  also have "\<dots> = spec_lag 1 unemployment_rate ?g t"
    by (simp add: spec_lag_cong [OF urs tg])
  finally show ?thesis .
qed

text \<open>
  C7. For every state s and every position t within the rows of s (in panel
  order, which is chronological order when the panel is sorted by date and
  state), \<open>unemployment_yoy_change\<close> is the unemployment rate of s at position
  t - 1 minus the one at position t - 13, null when either position falls
  before the start of the rows of s or when either rate is null: it is
  lag(1) - lag(13).
\<close>

theorem yoy_change_is_lag1_minus_lag13:
  assumes "t < length (group_rows (calculate_derived_variables panel) s)"
  shows "unemployment_yoy_change (group_rows (calculate_derived_variables panel) s ! t)
           = opt_sub (spec_lag 1 unemployment_rate (group_rows (calculate_derived_variables panel) s) t)
                     (spec_lag 13 unemployment_rate (group_rows (calculate_derived_variables panel) s) t)
         \<and> (sorted (map row_key panel)
              \<longrightarrow> sorted (map date (group_rows (calculate_derived_variables panel) s)))"
proof -
  let ?Q = "\<lambda>i. state (panel ! i) = s"
  let ?I = "filter ?Q [0..<length panel]"
  let ?g = "group_rows (calculate_derived_variables panel) s"
  have t: "t < length ?I" using assms by (simp add: derived_group_rows)
  have urs: "map unemployment_rate ?g = map unemployment_rate (group_rows panel s)"
    by (rule derived_group_col) (simp add: derive_row_cols)
  have tg: "t < length (group_rows panel s)" using t by (simp add: group_rows_index)
  have "unemployment_yoy_change (?g ! t)
          = opt_sub (groupby_shift 1 unemployment_rate panel (?I ! t))
                    (groupby_shift 13 unemployment_rate panel (?I ! t))"
    using t by (simp add: derived_group_rows derive_row_cols)
  also have "\<dots> = opt_sub (spec_lag 1 unemployment_rate (group_rows panel s) t)
                          (spec_lag 13 unemployment_rate (group_rows panel s) t)"
    by (simp add: groupby_shift_index [OF t])
  also have "\<dots> = opt_sub (spec_lag 1 unemployment_rate ?g t) (spec_lag 13 unemployment_rate ?g t)"
    by (simp add: spec_lag_cong [OF urs tg])
  finally have first: "unemployment_yoy_change (?g ! t)
     = opt_sub (spec_lag 1 unemployment_rate ?g t) (spec_lag 13 unemployment_rate ?g t)" .
  have dates: "map date ?g = map date (group_rows panel s)"
    by (rule derived_group_col) (simp add: derive_row_cols)
  have second: "sorted (map date ?g)" if "sorted (map row_key panel)"
  proof -
    have "sorted (map date panel)" using that by (rule sorted_keys_dates)
    then have "sorted (map date (group_rows panel s))"
      by (simp add: group_rows_def sorted_map sorted_wrt_filter)
    with dates show ?thesis by simp
  qed
  from first second show ?thesis by blast
qed


lemma fourteen_indices:
  "filter (\<lambda>i. state (fourteen_month_panel ! i) = ''AL'') [0..<length fourteen_month_panel]
     = [0, 2, 3, 4, 5, 6, 7, 8, 9, 10, 11, 12, 13, 14]"
  by (simp add: fourteen_month_panel_def core_row_def upt_rec)

lemma fourteen_sorted: "sorted (map row_key fourteen_month_panel)"
  by (simp add: fourteen_month_panel_def core_row_def row_key_def less_eq_prod_def)

theorem yoy_change_witness:
  "13 < length (group_rows (calculate_derived_variables fourteen_month_panel) ''AL'')
   \<and> unemployment_yoy_change
       (group_rows (calculate_derived_variables fourteen_month_panel) ''AL'' ! 13) = Some 12
   \<and> opt_sub (unemployment_rate
         (group_rows (calculate_derived_variables fourteen_month_panel) ''AL'' ! 13))
       (spec_lag 12 unemployment_rate
         (group_rows (calculate_derived_variables fourteen_month_panel) ''AL'') 13) = Some 18
   \<and> sorted (map row_key fourteen_month_panel)
   \<and> sorted (map date (group_rows (calculate_derived_variables fourteen_month_panel) ''AL''))"
proof -
  have rows: "group_rows (calculate_derived_variables fourteen_month_panel) ''AL''
     = map (derive_row fourteen_month_panel
             (groupby_rolling_std 12 1 unemployment_rate fourteen_month_panel))
           [0, 2, 3, 4, 5, 6, 7, 8, 9, 10, 11, 12, 13, 14]"
    by (simp only: derived_group_rows fourteen_indices)
  have len: "13 < length (group_rows (calculate_derived_variables fourteen_month_panel) ''AL'')"
    by (simp add: rows)
  have lags: "opt_sub (spec_lag 1 unemployment_rate
                  (group_rows (calculate_derived_variables fourteen_month_panel) ''AL'') 13)
                (spec_lag 13 unemployment_rate
                  (group_rows (calculate_derived_variables fourteen_month_panel) ''AL'') 13)
              = Some 12"
    unfolding rows
    by (simp add: spec_lag_def derive_row_cols opt_sub_def fourteen_month_panel_def core_row_def)
  have other: "opt_sub (unemployment_rate
         (group_rows (calculate_derived_variables fourteen_month_panel) ''AL'' ! 13))
       (spec_lag 12 unemployment_rate
         (group_rows (calculate_derived_variables fourteen_month_panel) ''AL'') 13) = Some 18"
    unfolding rows
    by (simp add: spec_lag_def derive_row_cols opt_sub_def fourteen_month_panel_def core_row_def)
  from yoy_change_is_lag1_minus_lag13 [OF len] lags other len fourteen_sorted
  show ?thesis by simp
qed

section \<open>Lemmas on the supplementary joins\<close>

lemma map_insort_key: "map f (insort_key f x xs) = insort (f x) (map f xs)"
  by (induction xs) auto

lemma map_sort_key: "map f (sort_key f xs) = sort (map f xs)"
  by (induction xs) (simp_all add: map_insort_key)

lemma in_range_key: "in_range lo hi r = (ts_ge (fst (row_key r)) lo \<and> ts_le (fst (row_key r)) hi)"
  by (simp add: in_range_def row_key_def)

lemma filter_in_range_keys:
  "map row_key (filter (in_range lo hi) panel)
     = filter (\<lambda>k. ts_ge (fst k) lo \<and> ts_le (fst k) hi) (map row_key panel)"
  by (induction panel) (simp_all add: in_range_key)



lemma add_national_keys_set:
  assumes "add_national d key panel = Inr p"
  shows "row_key ` set p = row_key ` set panel"
proof (cases "map_of d key")
  case None
  with assms show ?thesis by (simp add: add_national_def)
next
  case (Some f)
  with assms obtain df where "p = merge_left_date key panel (sort_key o_date df)"
    by (cases f) (auto simp: add_national_def)
  then show ?thesis by (simp only: merge_left_date_keys_set)
qed

lemma add_state_keys_set:
  assumes "add_state d key panel = Inr p"
  shows "row_key ` set p = row_key ` set panel"
proof (cases "map_of d key")
  case None
  with assms show ?thesis by (simp add: add_state_def)
next
  case (Some f)
  with assms obtain df where
    "p = merge_left_date_state key panel (sort_key (\<lambda>x. (s_date x, s_state x)) df)"
    by (cases f) (auto simp: add_state_def)
  then show ?thesis by (simp only: merge_left_date_state_keys_set)
qed

lemma add_all_invariant:
  assumes "\<And>key panel p. key \<in> set keys \<Longrightarrow> step key panel = Inr p \<Longrightarrow> f p = f panel"
    and "add_all step keys panel = Inr p"
  shows "f p = f panel"
  using assms
proof (induction keys arbitrary: panel)
  case Nil
  then show ?case by simp
next
  case (Cons key keys)
  from Cons.prems(2) obtain q where q: "step key panel = Inr q" and rest: "add_all step keys q = Inr p"
    by (auto split: sum.splits)
  have "f q = f panel" using Cons.prems(1) [of key panel q] q by simp
  moreover have "f p = f q"
  proof (rule Cons.IH [OF _ rest])
    fix k a b
    assume "k \<in> set keys" and "step k a = Inr b"
    then show "f b = f a" using Cons.prems(1) [of k a b] by simp
  qed
  ultimately show ?case by simp
qed

lemma optional_uniqueD:
  assumes "optional_unique d" and "key \<in> set (national_keys @ state_keys)"
    and "map_of d key = Some f"
  shows "frame_unique f"
  using assms by (auto simp: optional_unique_def list_all_iff split: option.splits)

lemma add_national_keys:
  assumes "optional_unique d" and "key \<in> set national_keys"
    and "add_national d key panel = Inr p"
  shows "map row_key p = map row_key panel"
proof (cases "map_of d key")
  case None
  with assms(3) show ?thesis by (simp add: add_national_def)
next
  case (Some f)
  then have u: "frame_unique f" using assms(1,2) by (auto intro: optional_uniqueD)
  from Some assms(3) obtain df where f: "f = National df"
    and p: "p = merge_left_date key panel (sort_key o_date df)"
    by (cases f) (auto simp: add_national_def)
  from u f have "distinct (map o_date (sort_key o_date df))"
    by (simp add: frame_unique_def unique_dates_def distinct_map_sort_key)
  then show ?thesis unfolding p by (rule merge_left_date_keys)
qed

lemma add_state_keys:
  assumes "optional_unique d" and "key \<in> set state_keys"
    and "add_state d key panel = Inr p"
  shows "map row_key p = map row_key panel"
proof (cases "map_of d key")
  case None
  with assms(3) show ?thesis by (simp add: add_state_def)
next
  case (Some f)
  then have u: "frame_unique f" using assms(1,2) by (auto intro: optional_uniqueD)
  from Some assms(3) obtain df where f: "f = StateScoped df"
    and p: "p = merge_left_date_state key panel (sort_key (\<lambda>x. (s_date x, s_state x)) df)"
    by (cases f) (auto simp: add_state_def)
  from u f have "distinct (map (\<lambda>x. (s_date x, s_state x))
                             (sort_key (\<lambda>x. (s_date x, s_state x)) df))"
    by (simp add: frame_unique_def unique_date_state_def distinct_map_sort_key)
  then show ?thesis unfolding p by (rule merge_left_date_state_keys)
qed

text \<open>
  The rows that the enhanced assembler sorts at its end: the base join widened
  by the supplementary joins.
\<close>

lemma enhanced_shape:
  assumes "create_state_panel_enhanced su ff nu d = Inr p"
  obtains p1 p2 where
    "add_all (add_national d) national_keys
       (merge_state (sort_key s_date su)
          (merge_national (sort_key o_date ff) (sort_key o_date nu))) = Inr p1"
    and "add_all (add_state d) state_keys p1 = Inr p2"
    and "p = sort_key row_key
               (filter (in_range (common_start (sort_key s_date su) (sort_key o_date ff)
                                               (sort_key o_date nu))
                                 (common_end (sort_key s_date su) (sort_key o_date ff)
                                             (sort_key o_date nu))) p2)"
  using assms unfolding create_state_panel_enhanced_def Let_def
  by (auto split: sum.splits)

lemma enhanced_keys_set:
  assumes "create_state_panel_enhanced su ff nu d = Inr p"
  shows "row_key ` set p \<subseteq> row_key ` set (merge_state (sort_key s_date su)
           (merge_national (sort_key o_date ff) (sort_key o_date nu)))"
proof -
  from assms obtain p1 p2 where
    p1: "add_all (add_national d) national_keys
       (merge_state (sort_key s_date su)
          (merge_national (sort_key o_date ff) (sort_key o_date nu))) = Inr p1"
    and p2: "add_all (add_state d) state_keys p1 = Inr p2"
    and p: "set p \<subseteq> set p2"
    by (rule enhanced_shape) auto
  have "row_key ` set p1 = row_key ` set (merge_state (sort_key s_date su)
           (merge_national (sort_key o_date ff) (sort_key o_date nu)))"
    by (rule add_all_invariant [OF _ p1]) (rule add_national_keys_set)
  moreover have "row_key ` set p2 = row_key ` set p1"
    by (rule add_all_invariant [OF _ p2]) (rule add_state_keys_set)
  ultimately show ?thesis using image_mono [OF p, of row_key] by simp
qed

lemma enhanced_keys:
  assumes "optional_unique d" and "create_state_panel_enhanced su ff nu d = Inr p"
  shows "map row_key p = map row_key (create_state_panel su ff nu)"
proof -
  let ?base = "merge_state (sort_key s_date su)
                 (merge_national (sort_key o_date ff) (sort_key o_date nu))"
  let ?lo = "common_start (sort_key s_date su) (sort_key o_date ff) (sort_key o_date nu)"
  let ?hi = "common_end (sort_key s_date su) (sort_key o_date ff) (sort_key o_date nu)"
  from assms(2) obtain p1 p2 where
    p1: "add_all (add_national d) national_keys ?base = Inr p1"
    and p2: "add_all (add_state d) state_keys p1 = Inr p2"
    and p: "p = sort_key row_key (filter (in_range ?lo ?hi) p2)"
    by (rule enhanced_shape)
  have "map row_key p1 = map row_key ?base"
    by (rule add_all_invariant [OF _ p1]) (rule add_national_keys [OF assms(1)])
  moreover have "map row_key p2 = map row_key p1"
    by (rule add_all_invariant [OF _ p2]) (rule add_state_keys [OF assms(1)])
  ultimately have "map row_key p2 = map row_key ?base" by simp
  then show ?thesis
    by (simp add: p create_state_panel_def Let_def map_sort_key filter_in_range_keys)
qed

lemma base_keys_distinct:
  assumes "unique_date_state su" and "unique_dates ff" and "unique_dates nu"
  shows "distinct (map row_key (create_state_panel su ff nu))"
proof -
  have nd: "distinct (map fst (merge_national (sort_key o_date ff) (sort_key o_date nu)))"
    using assms(2,3)
    by (intro distinct_merge_national) (simp_all add: unique_dates_def distinct_map_sort_key)
  have "distinct (map row_key (merge_state (sort_key s_date su)
          (merge_national (sort_key o_date ff) (sort_key o_date nu))))"
    using assms(1) nd
    by (intro distinct_merge_state) (simp_all add: unique_date_state_def distinct_map_sort_key)
  then show ?thesis
    by (simp add: create_state_panel_def Let_def distinct_map_sort_key distinct_map_filter_list)
qed

lemma enhanced_engine_keys:
  "map row_key (calculate_derived_variables_enhanced panel) = map row_key panel"
  by (simp add: calculate_derived_variables_enhanced_def row_key_def)

lemma engine_keys: "map row_key (calculate_derived_variables panel) = map row_key panel"
proof -
  have "map row_key (calculate_derived_variables panel)
          = map (\<lambda>i. row_key (panel ! i)) [0..<length panel]"
    by (simp add: calculate_derived_variables_def Let_def row_key_def derive_row_cols)
  also have "\<dots> = map row_key (map ((!) panel) [0..<length panel])" by simp
  also have "\<dots> = map row_key panel" by (simp only: map_nth)
  finally show ?thesis .
qed

section \<open>Claims on the Panel Assembler\<close>

lemma ex_sorted:
  "sort_key s_date ex_state_unemployment = ex_state_unemployment"
  "sort_key o_date ex_federal_funds = ex_federal_funds"
  "sort_key o_date ex_national_unemployment = ex_national_unemployment"
  by (simp_all add: ex_state_unemployment_def ex_federal_funds_def ex_national_unemployment_def
      mk_obs_def mk_sobs_def less_eq_prod_def)

lemma ex_base_panel:
  "create_state_panel ex_state_unemployment ex_federal_funds ex_national_unemployment
     = two_state_panel"
  unfolding create_state_panel_def Let_def ex_sorted
  by (simp add: ex_state_unemployment_def ex_federal_funds_def ex_national_unemployment_def
      mk_obs_def mk_sobs_def common_start_def common_end_def py_max3_def py_min3_def
      ts_gt_def ts_lt_def merge_national_def merge_state_def mk_row_def in_range_def
      ts_ge_def ts_le_def two_state_panel_def core_row_def row_key_def less_eq_prod_def
      less_prod_def)

lemma ex_enhanced:
  "create_state_panel_enhanced ex_state_unemployment ex_federal_funds ex_national_unemployment
     ex_data = Inr ex_enhanced_panel"
  unfolding create_state_panel_enhanced_def Let_def ex_sorted
  by (simp add: ex_state_unemployment_def ex_federal_funds_def ex_national_unemployment_def
      mk_obs_def mk_sobs_def common_start_def common_end_def py_max3_def py_min3_def
      ts_gt_def ts_lt_def merge_national_def merge_state_def mk_row_def in_range_def
      ts_ge_def ts_le_def ex_enhanced_panel_def core_row_def row_key_def less_eq_prod_def
      less_prod_def ex_data_def national_keys_def state_keys_def add_national_def
      add_state_def merge_left_date_def merge_left_date_state_def left_rows_def add_cell_def)

lemma ex_bounds:
  "spec_common_start ex_state_unemployment ex_federal_funds ex_national_unemployment
     = (2000, 1, 1)"
  "spec_common_end ex_state_unemployment ex_federal_funds ex_national_unemployment
     = (2000, 2, 1)"
  by (simp_all add: spec_common_start_def spec_common_end_def ex_state_unemployment_def
      ex_federal_funds_def ex_national_unemployment_def mk_obs_def mk_sobs_def
      less_eq_prod_def less_prod_def)

lemma spec_bounds_sorted:
  "spec_common_start (sort_key s_date su) (sort_key o_date ff) (sort_key o_date nu)
     = spec_common_start su ff nu"
  "spec_common_end (sort_key s_date su) (sort_key o_date ff) (sort_key o_date nu)
     = spec_common_end su ff nu"
  by (simp_all add: spec_common_start_def spec_common_end_def)

lemma in_range_bounds:
  assumes "in_range (common_start su ff nu) (common_end su ff nu) r"
    and "su \<noteq> []" and "ff \<noteq> []" and "nu \<noteq> []"
  shows "spec_common_start su ff nu \<le> date r \<and> date r \<le> spec_common_end su ff nu"
  using assms
  by (simp add: in_range_def common_start_spec common_end_spec ts_ge_def ts_le_def)

lemma base_join_bounds:
  assumes "k \<in> row_key ` set (merge_state (sort_key s_date su)
             (merge_national (sort_key o_date ff) (sort_key o_date nu)))"
    and "in_range (common_start (sort_key s_date su) (sort_key o_date ff) (sort_key o_date nu))
                  (common_end (sort_key s_date su) (sort_key o_date ff) (sort_key o_date nu)) r"
  shows "spec_common_start su ff nu \<le> date r \<and> date r \<le> spec_common_end su ff nu"
proof -
  let ?nd = "merge_national (sort_key o_date ff) (sort_key o_date nu)"
  from assms(1) have ne: "merge_state (sort_key s_date su) ?nd \<noteq> []" by auto
  then have su: "sort_key s_date su \<noteq> []" and nd: "?nd \<noteq> []"
    using merge_state_nonempty by blast+
  from nd have "sort_key o_date ff \<noteq> []" and "sort_key o_date nu \<noteq> []"
    using merge_national_nonempty by blast+
  with su assms(2) show ?thesis
    using in_range_bounds [of "sort_key s_date su" "sort_key o_date ff" "sort_key o_date nu" r]
    by (simp add: spec_bounds_sorted)
qed

text \<open>
  C4. Every row of an assembled panel, from the basic or from the enhanced
  assembler, has its date between the maximum of the three minimum dates and
  the minimum of the three maximum dates of the required series, bounds
  included.
\<close>

theorem panel_dates_within_common_range:
  "(r \<in> set (create_state_panel su ff nu)
      \<longrightarrow> spec_common_start su ff nu \<le> date r \<and> date r \<le> spec_common_end su ff nu)
   \<and> (create_state_panel_enhanced su ff nu d = Inr p \<and> r \<in> set p
      \<longrightarrow> spec_common_start su ff nu \<le> date r \<and> date r \<le> spec_common_end su ff nu)"
proof (rule conjI; rule impI)
  assume "r \<in> set (create_state_panel su ff nu)"
  then have "row_key r \<in> row_key ` set (merge_state (sort_key s_date su)
               (merge_national (sort_key o_date ff) (sort_key o_date nu)))"
    and "in_range (common_start (sort_key s_date su) (sort_key o_date ff) (sort_key o_date nu))
                  (common_end (sort_key s_date su) (sort_key o_date ff) (sort_key o_date nu)) r"
    by (simp_all add: create_state_panel_def Let_def)
  then show "spec_common_start su ff nu \<le> date r \<and> date r \<le> spec_common_end su ff nu"
    by (rule base_join_bounds)
next
  assume a: "create_state_panel_enhanced su ff nu d = Inr p \<and> r \<in> set p"
  then have "row_key r \<in> row_key ` set (merge_state (sort_key s_date su)
               (merge_national (sort_key o_date ff) (sort_key o_date nu)))"
    using enhanced_keys_set [of su ff nu d p] by auto
  moreover from a have
    "in_range (common_start (sort_key s_date su) (sort_key o_date ff) (sort_key o_date nu))
              (common_end (sort_key s_date su) (sort_key o_date ff) (sort_key o_date nu)) r"
    by (auto elim!: enhanced_shape)
  ultimately show "spec_common_start su ff nu \<le> date r \<and> date r \<le> spec_common_end su ff nu"
    by (rule base_join_bounds)
qed

theorem panel_dates_witness:
  "core_row (2000, 2, 1) ''TX'' 5 4 6
     \<in> set (create_state_panel ex_state_unemployment ex_federal_funds ex_national_unemployment)
   \<and> create_state_panel_enhanced ex_state_unemployment ex_federal_funds
        ex_national_unemployment ex_data = Inr ex_enhanced_panel
   \<and> (core_row (2000, 1, 1) ''AL'' 1 4 5)
        \<lparr>extras := [(''recession'', Some 0), (''employment_level'', None)]\<rparr>
     \<in> set ex_enhanced_panel
   \<and> (2000, 1, 1) \<le> date (core_row (2000, 2, 1) ''TX'' 5 4 6)
   \<and> date (core_row (2000, 2, 1) ''TX'' 5 4 6) \<le> (2000, 2, 1)
   \<and> (2000, 1, 1) \<le> date ((core_row (2000, 1, 1) ''AL'' 1 4 5)
        \<lparr>extras := [(''recession'', Some 0), (''employment_level'', None)]\<rparr>)
   \<and> date ((core_row (2000, 1, 1) ''AL'' 1 4 5)
        \<lparr>extras := [(''recession'', Some 0), (''employment_level'', None)]\<rparr>) \<le> (2000, 2, 1)"
proof -
  have m1: "core_row (2000, 2, 1) ''TX'' 5 4 6
     \<in> set (create_state_panel ex_state_unemployment ex_federal_funds ex_national_unemployment)"
    by (simp add: ex_base_panel two_state_panel_def)
  have m2: "(core_row (2000, 1, 1) ''AL'' 1 4 5)
        \<lparr>extras := [(''recession'', Some 0), (''employment_level'', None)]\<rparr>
     \<in> set ex_enhanced_panel"
    by (simp add: ex_enhanced_panel_def)
  from m1 m2 ex_enhanced
    panel_dates_within_common_range [of "core_row (2000, 2, 1) ''TX'' 5 4 6"
      ex_state_unemployment ex_federal_funds ex_national_unemployment ex_data ex_enhanced_panel]
    panel_dates_within_common_range [of "(core_row (2000, 1, 1) ''AL'' 1 4 5)
        \<lparr>extras := [(''recession'', Some 0), (''employment_level'', None)]\<rparr>"
      ex_state_unemployment ex_federal_funds ex_national_unemployment ex_data ex_enhanced_panel]
  show ?thesis by (simp add: ex_bounds)
qed

lemma ex_unique:
  "unique_date_state ex_state_unemployment"
  "unique_dates ex_federal_funds"
  "unique_dates ex_national_unemployment"
  "optional_unique ex_data"
  by (simp_all add: unique_date_state_def unique_dates_def optional_unique_def frame_unique_def
      ex_state_unemployment_def ex_federal_funds_def ex_national_unemployment_def ex_data_def
      mk_obs_def mk_sobs_def national_keys_def state_keys_def)

text \<open>
  C5. When every national input table has at most one row per date and every
  state-scoped input table at most one row per (date, state), the pair (date,
  state) is unique across the rows of the assembled panel, basic or enhanced;
  a supplementary left join with such a table keeps it unique, and so do both
  derived-variable engines.
\<close>

theorem panel_key_unique:
  assumes "unique_date_state su" and "unique_dates ff" and "unique_dates nu"
    and "optional_unique d"
  shows "distinct (map row_key (create_state_panel su ff nu))
    \<and> (create_state_panel_enhanced su ff nu d = Inr p
         \<longrightarrow> distinct (map row_key p)
           \<and> distinct (map row_key (calculate_derived_variables_enhanced p)))
    \<and> (distinct (map row_key panel) \<and> unique_dates df
         \<longrightarrow> distinct (map row_key (merge_left_date label panel df)))
    \<and> (distinct (map row_key panel) \<and> unique_date_state sdf
         \<longrightarrow> distinct (map row_key (merge_left_date_state label panel sdf)))
    \<and> (distinct (map row_key panel)
         \<longrightarrow> distinct (map row_key (calculate_derived_variables panel)))"
proof -
  have base: "distinct (map row_key (create_state_panel su ff nu))"
    using assms(1-3) by (rule base_keys_distinct)
  have enh: "distinct (map row_key p)
             \<and> distinct (map row_key (calculate_derived_variables_enhanced p))"
    if "create_state_panel_enhanced su ff nu d = Inr p"
    using enhanced_keys [OF assms(4) that] base by (simp add: enhanced_engine_keys)
  have j1: "distinct (map row_key (merge_left_date label panel df))"
    if "distinct (map row_key panel) \<and> unique_dates df"
    using that by (simp add: unique_dates_def merge_left_date_keys)
  have j2: "distinct (map row_key (merge_left_date_state label panel sdf))"
    if "distinct (map row_key panel) \<and> unique_date_state sdf"
    using that by (simp add: unique_date_state_def merge_left_date_state_keys)
  have eng: "distinct (map row_key (calculate_derived_variables panel))"
    if "distinct (map row_key panel)"
    using that by (simp add: engine_keys)
  from base enh j1 j2 eng show ?thesis by blast
qed

theorem panel_key_unique_witness:
  "unique_date_state ex_state_unemployment \<and> unique_dates ex_federal_funds
   \<and> unique_dates ex_national_unemployment \<and> optional_unique ex_data
   \<and> create_state_panel_enhanced ex_state_unemployment ex_federal_funds
        ex_national_unemployment ex_data = Inr ex_enhanced_panel
   \<and> distinct (map row_key two_state_panel)
   \<and> unique_dates ex_federal_funds \<and> unique_date_state ex_state_unemployment
   \<and> distinct (map row_key (create_state_panel ex_state_unemployment ex_federal_funds
                               ex_national_unemployment))
   \<and> distinct (map row_key ex_enhanced_panel)
   \<and> distinct (map row_key (calculate_derived_variables_enhanced ex_enhanced_panel))
   \<and> distinct (map row_key (merge_left_date ''fed'' two_state_panel ex_federal_funds))
   \<and> distinct (map row_key
        (merge_left_date_state ''fed'' two_state_panel ex_state_unemployment))
   \<and> distinct (map row_key (calculate_derived_variables two_state_panel))"
proof -
  have d: "distinct (map row_key two_state_panel)"
    by (simp add: two_state_panel_def core_row_def row_key_def)
  from d ex_enhanced ex_unique
    panel_key_unique [OF ex_unique, where p = ex_enhanced_panel and panel = two_state_panel
      and df = ex_federal_funds and label = "''fed''" and sdf = ex_state_unemployment]
  show ?thesis by simp
qed

section \<open>Claims on optional series\<close>

lemma load_optional_append:
  "\<exists>ys. load_optional fs xs d = d @ ys
        \<and> (\<forall>key\<in>fst ` set ys. \<exists>filename. (key, filename) \<in> set xs \<and> fs filename \<noteq> None)"
proof (induction xs arbitrary: d)
  case Nil
  then show ?case by simp
next
  case (Cons x xs)
  obtain key filename where x: "x = (key, filename)" by (cases x)
  show ?case
  proof (cases "fs filename")
    case None
    from Cons.IH [of d] obtain ys where ys: "load_optional fs xs d = d @ ys"
      and keys: "\<forall>key\<in>fst ` set ys. \<exists>filename. (key, filename) \<in> set xs \<and> fs filename \<noteq> None"
      by blast
    have "load_optional fs (x # xs) d = d @ ys"
      using None x ys by simp
    moreover have "\<forall>k\<in>fst ` set ys.
                     \<exists>filename. (k, filename) \<in> set (x # xs) \<and> fs filename \<noteq> None"
      using keys by (meson list.set_intros(2))
    ultimately show ?thesis by blast
  next
    case (Some df)
    from Cons.IH [of "d @ [(key, df)]"] obtain ys
      where ys: "load_optional fs xs (d @ [(key, df)]) = (d @ [(key, df)]) @ ys"
      and keys: "\<forall>key\<in>fst ` set ys. \<exists>filename. (key, filename) \<in> set xs \<and> fs filename \<noteq> None"
      by blast
    have "load_optional fs (x # xs) d = d @ ((key, df) # ys)"
      using Some x ys by simp
    moreover have "\<forall>k\<in>fst ` set ((key, df) # ys).
                     \<exists>filename. (k, filename) \<in> set (x # xs) \<and> fs filename \<noteq> None"
    proof
      fix k
      assume "k \<in> fst ` set ((key, df) # ys)"
      then have "k = key \<or> k \<in> fst ` set ys" by auto
      then show "\<exists>filename. (k, filename) \<in> set (x # xs) \<and> fs filename \<noteq> None"
      proof
        assume "k = key"
        then have "(k, filename) \<in> set (x # xs) \<and> fs filename \<noteq> None"
          using Some x by simp
        then show ?thesis by blast
      next
        assume "k \<in> fst ` set ys"
        with keys show ?thesis by (meson list.set_intros(2))
      qed
    qed
    ultimately show ?thesis by blast
  qed
qed

lemma optional_keys_distinct: "distinct (map fst optional_files)"
  by (simp add: optional_files_def)

lemma optional_key_file:
  "(key, filename) \<in> set optional_files \<Longrightarrow> (key, filename') \<in> set optional_files
     \<Longrightarrow> filename' = filename"
  using optional_keys_distinct by (rule eq_key_imp_eq_value)

lemma optional_key_not_core:
  assumes "(key, filename) \<in> set optional_files"
  shows "key \<noteq> ''federal_funds'' \<and> key \<noteq> ''national_unemployment''
         \<and> key \<noteq> ''state_unemployment'' \<and> key \<noteq> ''real_income''"
proof -
  have "key \<in> set (map fst optional_files)"
    using assms by (metis fst_conv image_eqI set_map)
  then have "key \<in> {''inflation'', ''recession'', ''treasury_10y'', ''employment_level'',
                      ''labor_force_level'', ''private_employment''}"
    by (simp add: optional_files_def)
  then show ?thesis by auto
qed

text \<open>What the enhanced loader returns when the three core files exist.\<close>

lemma load_enhanced_shape:
  assumes "fs ''federal_funds_rate.csv'' = Some a"
    and "fs ''national_unemployment_rate.csv'' = Some b"
    and "fs ''state_unemployment_rates.csv'' = Some c"
  shows "\<exists>d. load_raw_data_enhanced fs = Inr d
    \<and> map_of d ''federal_funds'' = Some a
    \<and> map_of d ''national_unemployment'' = Some b
    \<and> map_of d ''state_unemployment'' = Some c
    \<and> map_of d ''real_income'' = None
    \<and> (\<forall>key filename. (key, filename) \<in> set optional_files \<longrightarrow> fs filename = None
           \<longrightarrow> map_of d key = None)"
proof -
  let ?core = "[(''federal_funds'', a), (''national_unemployment'', b), (''state_unemployment'', c)]"
  have core: "load_core fs core_files [] = Inr ?core"
    using assms by (simp add: core_files_def)
  obtain ys where ys: "load_optional fs optional_files ?core = ?core @ ys"
    and keys: "\<forall>key\<in>fst ` set ys. \<exists>filename. (key, filename) \<in> set optional_files
                                                  \<and> fs filename \<noteq> None"
    using load_optional_append [of fs optional_files ?core] by blast
  have load: "load_raw_data_enhanced fs = Inr (?core @ ys)"
    by (simp add: load_raw_data_enhanced_def core ys)
  have ri: "map_of ys ''real_income'' = None"
  proof (rule ccontr)
    assume "map_of ys ''real_income'' \<noteq> None"
    then have "''real_income'' \<in> fst ` set ys" by (simp add: map_of_eq_None_iff)
    with keys obtain filename where "(''real_income'', filename) \<in> set optional_files" by blast
    then show False using optional_key_not_core by blast
  qed
  have absent: "map_of (?core @ ys) key = None"
    if "(key, filename) \<in> set optional_files" and "fs filename = None" for key filename
  proof -
    have "key \<notin> fst ` set ys"
    proof
      assume "key \<in> fst ` set ys"
      with keys obtain filename' where f: "(key, filename') \<in> set optional_files"
        and ne: "fs filename' \<noteq> None" by blast
      from optional_key_file [OF that(1) f] that(2) ne show False by simp
    qed
    then have "map_of ys key = None" by (simp add: map_of_eq_None_iff)
    with optional_key_not_core [OF that(1)] show ?thesis by (simp add: map_add_def)
  qed
  have "map_of (?core @ ys) ''federal_funds'' = Some a" by (simp add: map_add_def)
  moreover have "map_of (?core @ ys) ''national_unemployment'' = Some b"
    by (simp add: map_add_def)
  moreover have "map_of (?core @ ys) ''state_unemployment'' = Some c" by (simp add: map_add_def)
  moreover have "map_of (?core @ ys) ''real_income'' = None" using ri by (simp add: map_add_def)
  moreover have "\<forall>key filename. (key, filename) \<in> set optional_files \<longrightarrow> fs filename = None
           \<longrightarrow> map_of (?core @ ys) key = None" using absent by blast
  ultimately show ?thesis using load by blast
qed



























section \<open>Claims on an empty common date range\<close>

lemma load_raw_data_core:
  assumes "fs ''federal_funds_rate.csv'' = Some a"
    and "fs ''national_unemployment_rate.csv'' = Some b"
    and "fs ''state_unemployment_rates.csv'' = Some c"
  shows "load_raw_data fs
           = Inr [(''federal_funds'', a), (''national_unemployment'', b),
                  (''state_unemployment'', c)]"
  using assms by (simp add: load_raw_data_def core_files_def)

lemma main_writes:
  assumes "fs ''federal_funds_rate.csv'' = Some (National ff)"
    and "fs ''national_unemployment_rate.csv'' = Some (National nu)"
    and "fs ''state_unemployment_rates.csv'' = Some (StateScoped su)"
  shows "main report fs
           = ((case report (create_state_panel su ff nu) of None \<Rightarrow> 0 | Some e \<Rightarrow> 1),
              [(''panel_processed.csv'', create_state_panel su ff nu),
               (''analysis_panel.csv'', create_state_panel su ff nu)])"
  by (simp add: main_def load_raw_data_core [OF assms] Let_def split: option.splits)

lemma empty_range_filter:
  fixes panel :: "prow list"
  assumes "su \<noteq> []" and "ff \<noteq> []" and "nu \<noteq> []"
    and "spec_common_end su ff nu < spec_common_start su ff nu"
  shows "filter (in_range (common_start (sort_key s_date su) (sort_key o_date ff)
                                        (sort_key o_date nu))
                          (common_end (sort_key s_date su) (sort_key o_date ff)
                                      (sort_key o_date nu))) panel = []"
proof -
  have ne: "sort_key s_date su \<noteq> []" "sort_key o_date ff \<noteq> []" "sort_key o_date nu \<noteq> []"
    using assms(1-3) by (metis length_sort length_0_conv)+
  have "\<not> in_range (common_start (sort_key s_date su) (sort_key o_date ff) (sort_key o_date nu))
                    (common_end (sort_key s_date su) (sort_key o_date ff) (sort_key o_date nu)) r"
    for r :: prow
  proof
    assume "in_range (common_start (sort_key s_date su) (sort_key o_date ff) (sort_key o_date nu))
                     (common_end (sort_key s_date su) (sort_key o_date ff) (sort_key o_date nu)) r"
    then have "spec_common_start su ff nu \<le> date r" and "date r \<le> spec_common_end su ff nu"
      by (simp_all add: in_range_def common_start_spec [OF ne] common_end_spec [OF ne]
          spec_bounds_sorted ts_ge_def ts_le_def)
    then have "spec_common_start su ff nu \<le> spec_common_end su ff nu" by (rule order_trans)
    with assms(4) show False by simp
  qed
  then show ?thesis by (simp add: filter_empty_conv)
qed

text \<open>
  C6, as stated: with no common date range the assembler fails and no panel is
  written. On the files without a common date the assembler returns an empty
  panel, and \<open>main\<close> writes it to both panel files, whether the quality report
  that runs afterwards returns or raises.
\<close>

theorem zero_overlap_writes_empty_panel:
  "main report_returns zero_overlap_files
     = (0, [(''panel_processed.csv'', []), (''analysis_panel.csv'', [])])
   \<and> main report_raises zero_overlap_files
     = (1, [(''panel_processed.csv'', []), (''analysis_panel.csv'', [])])"
  by (simp add: main_def load_raw_data_def core_files_def zero_overlap_files_def Let_def
      create_state_panel_def common_start_def common_end_def py_max3_def py_min3_def
      ts_gt_def ts_lt_def merge_national_def merge_state_def mk_obs_def mk_sobs_def
      report_returns_def report_raises_def)

text \<open>
  C6, amended. If the three required series are non-empty and the maximum of
  their minimum dates exceeds the minimum of their maximum dates, both
  assemblers raise no error of their own and return an empty panel, and
  \<open>main\<close> of merge_final_panel.py writes that empty panel to
  panel_processed.csv and analysis_panel.csv before the quality report runs;
  its exit code is 0 when the report returns and 1 when the report raises.
\<close>

theorem zero_overlap_empty_panel:
  assumes "su \<noteq> []" and "ff \<noteq> []" and "nu \<noteq> []"
    and "spec_common_end su ff nu < spec_common_start su ff nu"
  shows "create_state_panel su ff nu = []
    \<and> (create_state_panel_enhanced su ff nu d = Inr p \<longrightarrow> p = [])
    \<and> (fs ''federal_funds_rate.csv'' = Some (National ff)
        \<and> fs ''national_unemployment_rate.csv'' = Some (National nu)
        \<and> fs ''state_unemployment_rates.csv'' = Some (StateScoped su)
        \<longrightarrow> main report fs
            = ((case report [] of None \<Rightarrow> 0 | Some e \<Rightarrow> 1),
               [(''panel_processed.csv'', []), (''analysis_panel.csv'', [])]))"
proof -
  have base: "create_state_panel su ff nu = []"
    by (simp add: create_state_panel_def Let_def empty_range_filter [OF assms])
  have enh: "p = []" if "create_state_panel_enhanced su ff nu d = Inr p"
    using that by (rule enhanced_shape) (simp add: empty_range_filter [OF assms])
  have m: "main report fs
            = ((case report [] of None \<Rightarrow> 0 | Some e \<Rightarrow> 1),
               [(''panel_processed.csv'', []), (''analysis_panel.csv'', [])])"
    if "fs ''federal_funds_rate.csv'' = Some (National ff)
        \<and> fs ''national_unemployment_rate.csv'' = Some (National nu)
        \<and> fs ''state_unemployment_rates.csv'' = Some (StateScoped su)"
    using that main_writes [of fs ff nu su report] by (simp add: base)
  from base enh m show ?thesis by blast
qed

theorem zero_overlap_witness:
  "[mk_sobs (2000, 1, 1) ''AL'' 1] \<noteq> [] \<and> [mk_obs (2000, 1, 1) 5] \<noteq> []
   \<and> [mk_obs (2001, 1, 1) 4] \<noteq> []
   \<and> spec_common_end [mk_sobs (2000, 1, 1) ''AL'' 1] [mk_obs (2000, 1, 1) 5]
        [mk_obs (2001, 1, 1) 4]
     < spec_common_start [mk_sobs (2000, 1, 1) ''AL'' 1] [mk_obs (2000, 1, 1) 5]
        [mk_obs (2001, 1, 1) 4]
   \<and> create_state_panel_enhanced [mk_sobs (2000, 1, 1) ''AL'' 1] [mk_obs (2000, 1, 1) 5]
        [mk_obs (2001, 1, 1) 4] [] = Inr []
   \<and> zero_overlap_files ''federal_funds_rate.csv'' = Some (National [mk_obs (2000, 1, 1) 5])
   \<and> zero_overlap_files ''national_unemployment_rate.csv''
       = Some (National [mk_obs (2001, 1, 1) 4])
   \<and> zero_overlap_files ''state_unemployment_rates.csv''
       = Some (StateScoped [mk_sobs (2000, 1, 1) ''AL'' 1])
   \<and> create_state_panel [mk_sobs (2000, 1, 1) ''AL'' 1] [mk_obs (2000, 1, 1) 5]
        [mk_obs (2001, 1, 1) 4] = []
   \<and> main report_raises zero_overlap_files
       = (1, [(''panel_processed.csv'', []), (''analysis_panel.csv'', [])])"
proof -
  have lt: "spec_common_end [mk_sobs (2000, 1, 1) ''AL'' 1] [mk_obs (2000, 1, 1) 5]
              [mk_obs (2001, 1, 1) 4]
            < spec_common_start [mk_sobs (2000, 1, 1) ''AL'' 1] [mk_obs (2000, 1, 1) 5]
              [mk_obs (2001, 1, 1) 4]"
    by (simp add: spec_common_start_def spec_common_end_def mk_obs_def mk_sobs_def
        less_prod_def less_eq_prod_def)
  have files: "zero_overlap_files ''federal_funds_rate.csv''
                 = Some (National [mk_obs (2000, 1, 1) 5])"
    "zero_overlap_files ''national_unemployment_rate.csv''
       = Some (National [mk_obs (2001, 1, 1) 4])"
    "zero_overlap_files ''state_unemployment_rates.csv''
       = Some (StateScoped [mk_sobs (2000, 1, 1) ''AL'' 1])"
    by (simp_all add: zero_overlap_files_def)
  have enh: "create_state_panel_enhanced [mk_sobs (2000, 1, 1) ''AL'' 1] [mk_obs (2000, 1, 1) 5]
        [mk_obs (2001, 1, 1) 4] [] = Inr []"
    by (simp add: create_state_panel_enhanced_def Let_def merge_national_def merge_state_def
        mk_obs_def mk_sobs_def national_keys_def state_keys_def add_national_def add_state_def)
  from zero_overlap_empty_panel [OF _ _ _ lt, where d = "[]" and p = "[]"
      and fs = zero_overlap_files and report = report_raises] lt files enh
  show ?thesis by (simp add: report_raises_def)
qed

section \<open>Claims on the Frequency Harmonizer\<close>

lemma map_of_dict_set: "key \<noteq> k \<Longrightarrow> map_of (dict_set d k v) key = map_of d key"
  by (induction d) auto

lemma harmonize_no_real_income:
  "map_of d ''real_income'' = None \<Longrightarrow> harmonize_frequencies reindex d = Inr d"
  by (simp add: harmonize_frequencies_def)

lemma harmonize_other_keys:
  assumes "harmonize_frequencies reindex d = Inr d'" and "key \<noteq> ''real_income''"
  shows "map_of d' key = map_of d key"
proof (cases "map_of d ''real_income''")
  case None
  with assms(1) show ?thesis by (simp add: harmonize_frequencies_def)
next
  case (Some df)
  show ?thesis
  proof (cases "nunique_months df = 1")
    case False
    with Some assms(1) show ?thesis by (simp add: harmonize_frequencies_def)
  next
    case True
    with Some assms(1) obtain df' where "d' = dict_set d ''real_income'' df'"
      by (auto simp: harmonize_frequencies_def split: sum.splits)
    with assms(2) show ?thesis by (simp add: map_of_dict_set)
  qed
qed

lemma load_core_present:
  assumes "load_core fs core_files [] = Inr dc"
  shows "\<exists>a b c. fs ''federal_funds_rate.csv'' = Some a
           \<and> fs ''national_unemployment_rate.csv'' = Some b
           \<and> fs ''state_unemployment_rates.csv'' = Some c"
  using assms by (simp add: core_files_def split: option.splits)

lemma loaded_no_real_income:
  assumes "load_raw_data_enhanced fs = Inr d"
  shows "map_of d ''real_income'' = None"
proof -
  from assms obtain dc where "load_core fs core_files [] = Inr dc"
    by (auto simp: load_raw_data_enhanced_def split: sum.splits)
  then obtain a b c where "fs ''federal_funds_rate.csv'' = Some a"
    and "fs ''national_unemployment_rate.csv'' = Some b"
    and "fs ''state_unemployment_rates.csv'' = Some c"
    using load_core_present by blast
  from load_enhanced_shape [OF this] assms show ?thesis by auto
qed

lemma ex_annual_grid:
  "monthly_grid (2000, 1, 1) (2001, 1, 1)
     = [(2000, 1, 1), (2000, 2, 1), (2000, 3, 1), (2000, 4, 1), (2000, 5, 1), (2000, 6, 1),
        (2000, 7, 1), (2000, 8, 1), (2000, 9, 1), (2000, 10, 1), (2000, 11, 1), (2000, 12, 1),
        (2001, 1, 1)]"
  by (simp add: monthly_grid_def month_index_def month_of_def month_start_def upto_rec1
      less_eq_prod_def less_prod_def)

lemma ex_annual_spec:
  "spec_harmonize ex_annual_data
     = [(''inflation'', National
          [mk_obs (2000, 1, 1) 1, mk_obs (2000, 2, 1) 1, mk_obs (2000, 3, 1) 1,
           mk_obs (2000, 4, 1) 1, mk_obs (2000, 5, 1) 1, mk_obs (2000, 6, 1) 1,
           mk_obs (2000, 7, 1) 1, mk_obs (2000, 8, 1) 1, mk_obs (2000, 9, 1) 1,
           mk_obs (2000, 10, 1) 1, mk_obs (2000, 11, 1) 1, mk_obs (2000, 12, 1) 1,
           mk_obs (2001, 1, 1) 2])]"
proof -
  have range: "date_min (map o_date [mk_obs (2000, 1, 1) 1, mk_obs (2001, 1, 1) 2])
                 = Some (2000, 1, 1)"
    "date_max (map o_date [mk_obs (2000, 1, 1) 1, mk_obs (2001, 1, 1) 2]) = Some (2001, 1, 1)"
    by (simp_all add: mk_obs_def min_def max_def less_eq_prod_def)
  have annual: "spec_annual (map o_date [mk_obs (2000, 1, 1) 1, mk_obs (2001, 1, 1) 2])"
    by (simp add: spec_annual_def mk_obs_def month_of_def)
  have "spec_reindex [mk_obs (2000, 1, 1) 1, mk_obs (2001, 1, 1) 2]
          = [mk_obs (2000, 1, 1) 1, mk_obs (2000, 2, 1) 1, mk_obs (2000, 3, 1) 1,
             mk_obs (2000, 4, 1) 1, mk_obs (2000, 5, 1) 1, mk_obs (2000, 6, 1) 1,
             mk_obs (2000, 7, 1) 1, mk_obs (2000, 8, 1) 1, mk_obs (2000, 9, 1) 1,
             mk_obs (2000, 10, 1) 1, mk_obs (2000, 11, 1) 1, mk_obs (2000, 12, 1) 1,
             mk_obs (2001, 1, 1) 2]"
    unfolding spec_reindex_def range prod.case option.case ex_annual_grid
    by (simp add: locf_def mk_obs_def less_eq_prod_def less_prod_def)
  with annual show ?thesis
    by (simp add: spec_harmonize_def ex_annual_data_def spec_harmonize_frame_def)
qed

text \<open>
  C9, as stated: every loaded series with annual cadence is re-indexed to a
  monthly grid. The series under the key \<open>inflation\<close> has its two observations
  in January 2000 and January 2001; the harmonizer, even with a re-indexing
  step that works as specified, returns it as it is, where the specification
  asks for the thirteen months from 2000-01 to 2001-01.
\<close>

theorem annual_series_not_harmonized:
  "harmonize_frequencies reindex_as_specified ex_annual_data = Inr ex_annual_data
   \<and> spec_harmonize ex_annual_data \<noteq> ex_annual_data"
  by (simp add: ex_annual_spec harmonize_frequencies_def) (simp add: ex_annual_data_def)

text \<open>
  C9, amended. The harmonizer looks at the key \<open>real_income\<close> only: a dict
  without that key is returned unchanged, whatever the cadence of its series;
  a \<open>real_income\<close> table whose dates fall in more than one calendar month is
  returned unchanged; the table of every other key is never changed; and the
  loader creates no key \<open>real_income\<close>, so the loaded tables are returned
  unchanged.
\<close>

theorem harmonizer_only_real_income:
  "(map_of d ''real_income'' = None \<longrightarrow> harmonize_frequencies reindex d = Inr d)
   \<and> (map_of d ''real_income'' = Some df \<and> nunique_months df \<noteq> 1
       \<longrightarrow> harmonize_frequencies reindex d = Inr d)
   \<and> (harmonize_frequencies reindex d = Inr d' \<and> key \<noteq> ''real_income''
       \<longrightarrow> map_of d' key = map_of d key)
   \<and> (load_raw_data_enhanced fs = Inr d \<longrightarrow> harmonize_frequencies reindex d = Inr d)"
proof -
  have a: "harmonize_frequencies reindex d = Inr d" if "map_of d ''real_income'' = None"
    using that by (rule harmonize_no_real_income)
  have b: "harmonize_frequencies reindex d = Inr d"
    if "map_of d ''real_income'' = Some df \<and> nunique_months df \<noteq> 1"
    using that by (simp add: harmonize_frequencies_def)
  have c: "map_of d' key = map_of d key"
    if "harmonize_frequencies reindex d = Inr d' \<and> key \<noteq> ''real_income''"
    using that harmonize_other_keys by blast
  have e: "harmonize_frequencies reindex d = Inr d" if "load_raw_data_enhanced fs = Inr d"
    using harmonize_no_real_income [OF loaded_no_real_income [OF that]] .
  from a b c e show ?thesis by blast
qed

theorem harmonizer_witness:
  "map_of ex_annual_data ''real_income'' = None
   \<and> harmonize_frequencies reindex_as_specified ex_annual_data = Inr ex_annual_data
   \<and> map_of ex_monthly_income ''real_income''
       = Some (National [mk_obs (2000, 1, 1) 1, mk_obs (2000, 2, 1) 2])
   \<and> nunique_months (National [mk_obs (2000, 1, 1) 1, mk_obs (2000, 2, 1) 2]) \<noteq> 1
   \<and> harmonize_frequencies reindex_as_specified ex_monthly_income = Inr ex_monthly_income
   \<and> ''inflation'' \<noteq> ''real_income''
   \<and> map_of ex_annual_data ''inflation'' = map_of ex_annual_data ''inflation''
   \<and> load_raw_data_enhanced ex_core_only
       = Inr [(''federal_funds'', National ex_federal_funds),
              (''national_unemployment'', National ex_national_unemployment),
              (''state_unemployment'', StateScoped ex_state_unemployment)]
   \<and> harmonize_frequencies reindex_as_specified
        [(''federal_funds'', National ex_federal_funds),
         (''national_unemployment'', National ex_national_unemployment),
         (''state_unemployment'', StateScoped ex_state_unemployment)]
       = Inr [(''federal_funds'', National ex_federal_funds),
              (''national_unemployment'', National ex_national_unemployment),
              (''state_unemployment'', StateScoped ex_state_unemployment)]"
proof -
  have n: "map_of ex_annual_data ''real_income'' = None" by (simp add: ex_annual_data_def)
  have m: "map_of ex_monthly_income ''real_income''
       = Some (National [mk_obs (2000, 1, 1) 1, mk_obs (2000, 2, 1) 2])"
    by (simp add: ex_monthly_income_def)
  have u: "nunique_months (National [mk_obs (2000, 1, 1) 1, mk_obs (2000, 2, 1) 2]) \<noteq> 1"
    by (simp add: nunique_months_def frame_dates_def mk_obs_def month_of_def)
  have l: "load_raw_data_enhanced ex_core_only
       = Inr [(''federal_funds'', National ex_federal_funds),
              (''national_unemployment'', National ex_national_unemployment),
              (''state_unemployment'', StateScoped ex_state_unemployment)]"
    by (simp add: load_raw_data_enhanced_def core_files_def optional_files_def ex_core_only_def)
  note t1 = harmonizer_only_real_income [where d = ex_annual_data
      and reindex = reindex_as_specified and d' = ex_annual_data and key = "''inflation''"
      and df = "National []" and fs = ex_core_only]
  note t2 = harmonizer_only_real_income [where d = ex_monthly_income
      and reindex = reindex_as_specified and d' = ex_monthly_income and key = "''inflation''"
      and df = "National [mk_obs (2000, 1, 1) 1, mk_obs (2000, 2, 1) 2]" and fs = ex_core_only]
  note t3 = harmonizer_only_real_income [where fs = ex_core_only
      and reindex = reindex_as_specified and d' = ex_annual_data and key = "''inflation''"
      and df = "National []"
      and d = "[(''federal_funds'', National ex_federal_funds),
                (''national_unemployment'', National ex_national_unemployment),
                (''state_unemployment'', StateScoped ex_state_unemployment)]"]
  have a: "harmonize_frequencies reindex_as_specified ex_annual_data = Inr ex_annual_data"
    using t1 n by blast
  have b: "harmonize_frequencies reindex_as_specified ex_monthly_income = Inr ex_monthly_income"
    using t2 m u by blast
  have c: "harmonize_frequencies reindex_as_specified
        [(''federal_funds'', National ex_federal_funds),
         (''national_unemployment'', National ex_national_unemployment),
         (''state_unemployment'', StateScoped ex_state_unemployment)]
       = Inr [(''federal_funds'', National ex_federal_funds),
              (''national_unemployment'', National ex_national_unemployment),
              (''state_unemployment'', StateScoped ex_state_unemployment)]"
    using t3 l by blast
  from n m u l a b c
  show ?thesis by simp
qed

end
